theory Spec2Isabelle
  imports Complex_Main "HOL-Library.Sublist" "HOL-Library.Log_Nat"
begin

section \<open>Strings\<close>

text \<open>
  A string is a list of 8-bit characters, read as the code points U+0000 to U+00FF.
  \<open>toLowerCase\<close> is \<open>String.prototype.toLowerCase\<close> on that range: the letters A to Z
  and the Latin-1 capitals U+00C0 to U+00DE (without the multiplication sign U+00D7)
  move up by 32, everything else stays.
\<close>

definition toLowerChar :: "char \<Rightarrow> char" where
  "toLowerChar c =
     (if ((65::nat) \<le> of_char c \<and> of_char c \<le> (90::nat)) \<or>
         ((192::nat) \<le> of_char c \<and> of_char c \<le> (222::nat) \<and> of_char c \<noteq> (215::nat))
      then char_of (of_char c + (32::nat)) else c)"

definition toLowerCase :: "string \<Rightarrow> string" where
  "toLowerCase s = map toLowerChar s"

text \<open>\<open>str_includes s sub\<close> is \<open>s.includes(sub)\<close>: \<open>sub\<close> occurs in \<open>s\<close> as a contiguous run.\<close>

fun str_includes :: "string \<Rightarrow> string \<Rightarrow> bool" where
  "str_includes [] sub = (sub = [])"
| "str_includes (c # cs) sub = (prefix sub (c # cs) \<or> str_includes cs sub)"

section \<open>Numbers\<close>

text \<open>
  A JavaScript number is an IEEE 754 binary64 value: NaN, an infinity, negative zero or
  a finite value, given by the rational it denotes; \<open>Fin 0\<close> is positive zero. Every
  operation computes the exact result and rounds it to binary64 (\<open>binary64\<close> below):
  to the nearest value, ties to the even significand, with overflow to an infinity and
  gradual underflow down to a signed zero.
\<close>

datatype jsnum = NaN | PInf | NInf | NZero | Fin rat

definition isNaN :: "jsnum \<Rightarrow> bool" where
  "isNaN x = (x = NaN)"

fun is_zero :: "jsnum \<Rightarrow> bool" where
  "is_zero NZero = True"
| "is_zero (Fin q) = (q = 0)"
| "is_zero _ = False"

fun is_inf :: "jsnum \<Rightarrow> bool" where
  "is_inf PInf = True"
| "is_inf NInf = True"
| "is_inf _ = False"

fun sign_bit :: "jsnum \<Rightarrow> bool" where
  "sign_bit NInf = True"
| "sign_bit NZero = True"
| "sign_bit (Fin q) = (q < 0)"
| "sign_bit _ = False"

fun fin_val :: "jsnum \<Rightarrow> rat" where
  "fin_val (Fin q) = q"
| "fin_val _ = 0"

definition signed_inf :: "bool \<Rightarrow> jsnum" where
  "signed_inf s = (if s then NInf else PInf)"

definition signed_zero :: "bool \<Rightarrow> jsnum" where
  "signed_zero s = (if s then NZero else Fin 0)"

fun js_neg :: "jsnum \<Rightarrow> jsnum" where
  "js_neg NaN = NaN"
| "js_neg PInf = NInf"
| "js_neg NInf = PInf"
| "js_neg NZero = Fin 0"
| "js_neg (Fin q) = (if q = 0 then NZero else Fin (- q))"

subsection \<open>Rounding to binary64\<close>

text \<open>The integer nearest to \<open>x\<close>; of two equally near ones the even one.\<close>

definition round_half_even :: "rat \<Rightarrow> int" where
  "round_half_even x =
     (let f = \<lfloor>x\<rfloor>; r = x - of_int f
      in if r < 1 / 2 then f else if 1 / 2 < r then f + 1 else if even f then f else f + 1)"

text \<open>
  For \<open>x > 0\<close>, the exponent \<open>e\<close> with \<open>2^e \<le> x < 2^(e+1)\<close>: the difference of the bit
  lengths of numerator and denominator, or one less.
\<close>

definition floor_log2 :: "rat \<Rightarrow> int" where
  "floor_log2 x =
     (let (n, d) = quotient_of x; e0 = bitlen n - bitlen d
      in if 2 powi e0 \<le> x then e0 else e0 - 1)"

text \<open>
  The binary64 value of the real number \<open>q\<close>. A binary64 value is \<open>m * 2^k\<close> with a
  significand \<open>m < 2^53\<close> and \<open>-1074 \<le> k \<le> 971\<close>. For \<open>2^e \<le> |q| < 2^(e+1)\<close> the unit
  in the last place is \<open>2^k\<close> with \<open>k = e - 52\<close>, and \<open>k = -1074\<close> in the subnormal range;
  \<open>|q|\<close> is rounded to a multiple \<open>m * 2^k\<close>. A result of \<open>2^1024\<close> or more is an infinity,
  a result of zero keeps the sign of \<open>q\<close>.
\<close>

definition binary64 :: "rat \<Rightarrow> jsnum" where
  "binary64 q =
     (if q = 0 then Fin 0
      else
        let e = floor_log2 \<bar>q\<bar>;
            k = max (e - 52) (- 1074);
            m = round_half_even (\<bar>q\<bar> / 2 powi k)
        in if 971 < k \<or> (k = 971 \<and> m = 2 ^ 53) then signed_inf (q < 0)
           else if m = 0 then signed_zero (q < 0)
           else Fin (sgn q * of_int m * 2 powi k))"

subsection \<open>Arithmetic\<close>

definition js_add :: "jsnum \<Rightarrow> jsnum \<Rightarrow> jsnum" where
  "js_add x y =
     (if isNaN x \<or> isNaN y then NaN
      else if is_inf x \<and> is_inf y then (if x = y then x else NaN)
      else if is_inf x then x
      else if is_inf y then y
      else if x = NZero \<and> y = NZero then NZero
      else binary64 (fin_val x + fin_val y))"

definition js_sub :: "jsnum \<Rightarrow> jsnum \<Rightarrow> jsnum" where
  "js_sub x y = js_add x (js_neg y)"

definition js_mul :: "jsnum \<Rightarrow> jsnum \<Rightarrow> jsnum" where
  "js_mul x y =
     (if isNaN x \<or> isNaN y then NaN
      else if (is_zero x \<and> is_inf y) \<or> (is_inf x \<and> is_zero y) then NaN
      else if is_inf x \<or> is_inf y then signed_inf (sign_bit x \<noteq> sign_bit y)
      else if is_zero x \<or> is_zero y then signed_zero (sign_bit x \<noteq> sign_bit y)
      else binary64 (fin_val x * fin_val y))"

definition js_div :: "jsnum \<Rightarrow> jsnum \<Rightarrow> jsnum" where
  "js_div x y =
     (if isNaN x \<or> isNaN y then NaN
      else if (is_zero x \<and> is_zero y) \<or> (is_inf x \<and> is_inf y) then NaN
      else if is_inf x \<or> is_zero y then signed_inf (sign_bit x \<noteq> sign_bit y)
      else if is_zero x \<or> is_inf y then signed_zero (sign_bit x \<noteq> sign_bit y)
      else binary64 (fin_val x / fin_val y))"

text \<open>\<open>js_ge x y\<close> is \<open>x >= y\<close>: false when either side is NaN, the two zeros are equal.\<close>

definition js_ge :: "jsnum \<Rightarrow> jsnum \<Rightarrow> bool" where
  "js_ge x y =
     (if isNaN x \<or> isNaN y then False
      else if x = PInf \<or> y = NInf then True
      else if x = NInf \<or> y = PInf then False
      else fin_val y \<le> fin_val x)"

section \<open>parseFloat\<close>

text \<open>
  \<open>parseFloat\<close> drops leading white space, reads the longest prefix that is a
  \<open>StrDecimalLiteral\<close> (an optional sign, then \<open>Infinity\<close> or digits with an optional
  fraction and an optional exponent) and returns its value rounded to binary64, or NaN
  when no prefix is one. Whatever follows the prefix is ignored.
\<close>

definition isWhiteSpace :: "char \<Rightarrow> bool" where
  "isWhiteSpace c = (c \<in> set [CHR 0x09, CHR 0x0A, CHR 0x0B, CHR 0x0C, CHR 0x0D, CHR '' '', CHR 0xA0])"

definition isDigit :: "char \<Rightarrow> bool" where
  "isDigit c = (c \<in> set ''0123456789'')"

definition digits_val :: "string \<Rightarrow> int" where
  "digits_val ds = foldl (\<lambda>acc c. 10 * acc + (of_char c - 48)) 0 ds"

text \<open>
  The exponent that follows the mantissa: \<open>e\<close> or \<open>E\<close>, an optional sign and at least
  one digit. Without a digit there is no exponent part, which reads as exponent 0.
\<close>

fun exponent_part :: "string \<Rightarrow> int" where
  "exponent_part [] = 0"
| "exponent_part (c # r) =
     (if c = CHR ''e'' \<or> c = CHR ''E'' then
        (case r of
           [] \<Rightarrow> 0
         | s # r' \<Rightarrow>
             if s = CHR ''+'' then digits_val (takeWhile isDigit r')
             else if s = CHR ''-'' then - digits_val (takeWhile isDigit r')
             else digits_val (takeWhile isDigit r))
      else 0)"

definition decimal_value :: "int \<Rightarrow> int \<Rightarrow> rat" where
  "decimal_value m e = (if 0 \<le> e then of_int m * 10 ^ nat e else of_int m / 10 ^ nat (- e))"

text \<open>
  What follows the integer digits: a dot with the fraction digits after it, if any.
  Returns the fraction digits and the text left for the exponent.
\<close>

definition fraction_part :: "string \<Rightarrow> string \<times> string" where
  "fraction_part r1 =
     (case r1 of
        [] \<Rightarrow> ([], [])
      | c # r' \<Rightarrow> if c = CHR ''.'' then (takeWhile isDigit r', dropWhile isDigit r') else ([], r1))"

text \<open>
  The value of the longest prefix that is a \<open>StrUnsignedDecimalLiteral\<close>: \<open>Infinity\<close>,
  or digits, a dot and a fraction with at least one digit in all, then an exponent.
\<close>

definition unsigned_literal :: "string \<Rightarrow> jsnum option" where
  "unsigned_literal r =
     (if prefix ''Infinity'' r then Some PInf
      else
        let ip = takeWhile isDigit r;
            (fp, r2) = fraction_part (dropWhile isDigit r)
        in if ip = [] \<and> fp = [] then None
           else Some (binary64 (decimal_value (digits_val (ip @ fp)) (exponent_part r2 - int (length fp)))))"

definition parseFloat :: "string \<Rightarrow> jsnum" where
  "parseFloat s =
     (case dropWhile isWhiteSpace s of
        [] \<Rightarrow> NaN
      | c # r \<Rightarrow>
          if c = CHR ''-'' then (case unsigned_literal r of None \<Rightarrow> NaN | Some v \<Rightarrow> js_neg v)
          else if c = CHR ''+'' then (case unsigned_literal r of None \<Rightarrow> NaN | Some v \<Rightarrow> v)
          else (case unsigned_literal (c # r) of None \<Rightarrow> NaN | Some v \<Rightarrow> v))"

section \<open>The covenant slack calculator (AnalysisReport.tsx)\<close>

record slack_result =
  slack :: jsnum
  percentage :: jsnum
  isSafe :: bool
  isMax :: bool

text \<open>\<open>None\<close> is the \<open>null\<close> that \<open>calculateSlack\<close> returns when an input does not parse.\<close>

definition calculateSlack :: "string \<Rightarrow> string \<Rightarrow> string \<Rightarrow> slack_result option" where
  "calculateSlack limitStr actualStr name =
     (let limit = parseFloat limitStr;
          actual = parseFloat actualStr
      in if isNaN limit \<or> isNaN actual then None
         else
           let isMax = (str_includes (toLowerCase name) ''leverage'' \<or> str_includes (toLowerCase name) ''debt'');
               slack = (if isMax then js_sub limit actual else js_sub actual limit);
               percentage = (if isMax then js_mul (js_div slack limit) (Fin 100)
                             else js_mul (js_div slack actual) (Fin 100))
           in Some \<lparr>slack = slack, percentage = percentage, isSafe = js_ge slack (Fin 0), isMax = isMax\<rparr>)"

section \<open>The score classifiers (AnalysisReport.tsx)\<close>

record score_meta =
  label :: string
  "text" :: string
  bg :: string
  border :: string
  accent :: string

definition getScoreMeta :: "int \<Rightarrow> score_meta" where
  "getScoreMeta score =
     (if score \<ge> 85 then
        \<lparr>label = ''High Confidence'', text = ''text-emerald-700'', bg = ''bg-emerald-50'',
         border = ''border-emerald-100'', accent = ''border-emerald-500''\<rparr>
      else if score \<ge> 70 then
        \<lparr>label = ''Moderate Review'', text = ''text-amber-700'', bg = ''bg-amber-50'',
         border = ''border-amber-100'', accent = ''border-amber-500''\<rparr>
      else
        \<lparr>label = ''Critical / Low Confidence'', text = ''text-rose-700'', bg = ''bg-rose-50'',
         border = ''border-rose-100'', accent = ''border-rose-500''\<rparr>)"

definition getReadinessColorPill :: "int \<Rightarrow> string" where
  "getReadinessColorPill score =
     (if score \<ge> 85 then ''text-emerald-600 bg-white border-emerald-300 shadow-sm''
      else if score \<ge> 70 then ''text-amber-600 bg-white border-amber-300 shadow-sm''
      else ''text-rose-600 bg-white border-rose-300 shadow-sm'')"

section \<open>The result normalizer (geminiService.ts)\<close>

text \<open>
  The payload is the value that \<open>JSON.parse\<close> returns: untyped. An object is the list of
  its own properties, each key once. \<open>JUndefined\<close> is what reading an absent property
  gives; it never occurs inside a parsed payload.
\<close>

datatype jsval =
    JUndefined
  | JNull
  | JBool bool
  | JNum jsnum
  | JStr string
  | JArr "jsval list"
  | JObj "(string \<times> jsval) list"

datatype js_exception = TypeError

text \<open>The one error that \<open>analyzeLoanDocument\<close> lets out: its \<open>catch\<close> block replaces
  whatever was thrown by \<open>Error("Failed to analyze document. ...")\<close>.\<close>

datatype analysis_error = AnalysisFailed

fun nullish :: "jsval \<Rightarrow> bool" where
  "nullish JUndefined = True"
| "nullish JNull = True"
| "nullish _ = False"

text \<open>
  \<open>get_prop v k\<close> is \<open>v.k\<close> for a receiver that is neither \<open>null\<close> nor \<open>undefined\<close>
  (reading a property of those throws a TypeError: every caller tests \<open>nullish\<close> first)
  and for the property names the source reads, none of which is an index, \<open>length\<close> or
  a member of a prototype: a primitive or an array has no such property.
\<close>

fun get_prop :: "jsval \<Rightarrow> string \<Rightarrow> jsval" where
  "get_prop (JObj kvs) k = (case map_of kvs k of None \<Rightarrow> JUndefined | Some v \<Rightarrow> v)"
| "get_prop _ k = JUndefined"

text \<open>\<open>ToBoolean\<close>, and \<open>x || y\<close> on values without effects.\<close>

fun truthy :: "jsval \<Rightarrow> bool" where
  "truthy JUndefined = False"
| "truthy JNull = False"
| "truthy (JBool b) = b"
| "truthy (JNum n) = (\<not> is_zero n \<and> \<not> isNaN n)"
| "truthy (JStr s) = (s \<noteq> [])"
| "truthy (JArr xs) = True"
| "truthy (JObj kvs) = True"

definition js_or :: "jsval \<Rightarrow> jsval \<Rightarrow> jsval" where
  "js_or x y = (if truthy x then x else y)"

record LmaComparison =
  standardBenchmark :: jsval
  deviations :: jsval
  impact :: jsval

record ClauseAnalysis =
  name :: jsval
  summary :: jsval
  confidenceScore :: jsval
  reviewRequired :: jsval
  reason :: jsval
  lmaComparison :: LmaComparison

text \<open>\<open>risk_summary\<close> is the field \<open>summary\<close> of \<open>RiskAssessment\<close>; the plain name is the
  field of \<open>ClauseAnalysis\<close>.\<close>

record RiskAssessment =
  overallRating :: jsval
  risk_summary :: jsval

record AnalysisResult =
  overview :: jsval
  confidenceAnalysis :: "ClauseAnalysis list"
  riskAssessment :: RiskAssessment
  commercialSummary :: jsval
  dealReadiness :: jsval
  rawText :: string

text \<open>
  The callback of \<open>data.clauses.map\<close>: \<open>toClauseAnalysis\<close> is the object it builds,
  \<open>mapClause\<close> adds that reading a property of a \<open>null\<close> entry throws.
\<close>

definition toClauseAnalysis :: "jsval \<Rightarrow> ClauseAnalysis" where
  "toClauseAnalysis c =
     \<lparr>name = get_prop c ''clause_name'',
      summary = get_prop c ''extracted_text'',
      confidenceScore = get_prop c ''confidence_score'',
      reviewRequired = get_prop c ''review_required'',
      reason = get_prop c ''explanation'',
      lmaComparison =
        \<lparr>standardBenchmark = js_or (get_prop c ''lma_benchmark_context'') (JStr ''Market standard position.''),
         deviations = get_prop c ''market_deviation'',
         impact = js_or (get_prop c ''potential_impact'')
                    (JStr ''Review required for specific commercial impact.'')\<rparr>\<rparr>"

definition mapClause :: "jsval \<Rightarrow> js_exception + ClauseAnalysis" where
  "mapClause c = (if nullish c then Inl TypeError else Inr (toClauseAnalysis c))"

fun mapClauses :: "jsval list \<Rightarrow> js_exception + ClauseAnalysis list" where
  "mapClauses [] = Inr []"
| "mapClauses (c # cs) =
     (case mapClause c of
        Inl e \<Rightarrow> Inl e
      | Inr x \<Rightarrow> (case mapClauses cs of Inl e \<Rightarrow> Inl e | Inr xs \<Rightarrow> Inr (x # xs)))"

text \<open>
  The \<open>try\<close> block of \<open>analyzeLoanDocument\<close> from the parsed \<open>data\<close> on. \<open>data.clauses.map\<close>
  is callable only when \<open>data.clauses\<close> is an array: on anything else the call throws.
\<close>

definition buildResult :: "jsval \<Rightarrow> string \<Rightarrow> js_exception + AnalysisResult" where
  "buildResult data txt =
     (if nullish data then Inl TypeError
      else
        (case get_prop data ''clauses'' of
           JArr cs \<Rightarrow>
             (case mapClauses cs of
                Inl e \<Rightarrow> Inl e
              | Inr ca \<Rightarrow>
                  if nullish (get_prop data ''riskAssessment'') then Inl TypeError
                  else Inr
                    \<lparr>overview = get_prop data ''overview'',
                     confidenceAnalysis = ca,
                     riskAssessment =
                       \<lparr>overallRating =
                          js_or (get_prop (get_prop data ''riskAssessment'') ''overallRating'') (JStr ''Medium''),
                        risk_summary = get_prop (get_prop data ''riskAssessment'') ''summary''\<rparr>,
                     commercialSummary = get_prop data ''commercialSummary'',
                     dealReadiness = get_prop data ''dealReadiness'',
                     rawText = txt\<rparr>)
         | _ \<Rightarrow> Inl TypeError))"

text \<open>
  \<open>analyzeLoanDocument\<close> from the parsed response on, with its \<open>catch\<close> block: every
  exception becomes the one analysis error. This is the step the specification calls
  the result normalizer; \<open>txt\<close> is the document text the function was called with.
\<close>

definition analyzeLoanDocument :: "jsval \<Rightarrow> string \<Rightarrow> analysis_error + AnalysisResult" where
  "analyzeLoanDocument data txt = (case buildResult data txt of Inl e \<Rightarrow> Inl AnalysisFailed | Inr r \<Rightarrow> Inr r)"

section \<open>Notions used to state the properties\<close>

text \<open>
  \<open>contains_ignoring_case s w\<close>: some contiguous run of \<open>s\<close> is the lower-case word \<open>w\<close>
  up to the case of its letters.
\<close>

definition contains_ignoring_case :: "string \<Rightarrow> string \<Rightarrow> bool" where
  "contains_ignoring_case s w = (\<exists>ps u ss. s = ps @ u @ ss \<and> toLowerCase u = w)"

text \<open>
  Trailing text that no number text before it can absorb. A literal is continued by a
  digit, by a dot that brings a digit or an exponent, by an exponent (\<open>e\<close> or \<open>E\<close>, an
  optional sign, a digit), or, after a dangling \<open>e\<close>, by a sign and a digit. Trailing
  text starts with none of these: "x", " times", "EUR", "%", "e", "-", "." are trailing
  text, "5", ".5", "e5", "E-2", "+5" are not.
\<close>

definition starts_digit :: "string \<Rightarrow> bool" where
  "starts_digit t = (case t of [] \<Rightarrow> False | c # _ \<Rightarrow> isDigit c)"

definition starts_signed_digit :: "string \<Rightarrow> bool" where
  "starts_signed_digit t =
     (case t of [] \<Rightarrow> False | s # r \<Rightarrow> (s = CHR ''+'' \<or> s = CHR ''-'') \<and> starts_digit r)"

definition starts_exponent :: "string \<Rightarrow> bool" where
  "starts_exponent t =
     (case t of
        [] \<Rightarrow> False
      | c # r \<Rightarrow> (c = CHR ''e'' \<or> c = CHR ''E'') \<and> (starts_digit r \<or> starts_signed_digit r))"

definition trailing_text :: "string \<Rightarrow> bool" where
  "trailing_text t =
     (\<not> starts_digit t \<and> \<not> starts_signed_digit t \<and> \<not> starts_exponent t
      \<and> (case t of
            [] \<Rightarrow> True
          | c # r \<Rightarrow> c = CHR ''.'' \<longrightarrow> \<not> starts_digit r \<and> \<not> starts_exponent r))"

text \<open>
  The finite binary64 values lie on the grid of the multiples of \<open>2^-1074\<close>, the least
  positive value.
\<close>

definition grid64 :: "rat \<Rightarrow> bool" where
  "grid64 q = (\<exists>z::int. q = of_int z * 2 powi (- 1074))"

subsection \<open>Example payloads\<close>

text \<open>Payloads of the shape the response schema of \<open>analyzeLoanDocument\<close> asks for.\<close>

definition example_overview :: jsval where
  "example_overview =
     JObj [(''facilityType'', JStr ''Term Loan''), (''borrowerLender'', JStr ''Acme / Bank''),
           (''currency'', JStr ''USD''), (''amount'', JStr ''50m''),
           (''maturity'', JStr ''2030''), (''law'', JStr ''English'')]"

definition example_clause :: "int \<Rightarrow> string \<Rightarrow> bool \<Rightarrow> jsval" where
  "example_clause score deviation review =
     JObj [(''clause_name'', JStr ''Financial Covenants''), (''extracted_text'', JStr ''Leverage below 3.5x''),
           (''confidence_score'', JNum (Fin (of_int score))), (''market_deviation'', JStr deviation),
           (''review_required'', JBool review), (''explanation'', JStr ''Clear wording'')]"

definition example_readiness :: "int \<Rightarrow> string \<Rightarrow> jsval" where
  "example_readiness score status =
     JObj [(''score'', JNum (Fin (of_int score))), (''status'', JStr status),
           (''driversPositive'', JArr []), (''driversNegative'', JArr []),
           (''keyIssues'', JArr []), (''recommendedActions'', JArr [])]"

definition example_risk :: "string \<Rightarrow> jsval" where
  "example_risk rating = JObj [(''overallRating'', JStr rating), (''summary'', JStr ''Moderate exposure'')]"

definition example_commercial :: jsval where
  "example_commercial =
     JObj [(''snapshot'', JStr ''Five-year term loan''), (''highlights'', JArr []),
           (''risks'', JArr []), (''nextActions'', JArr [])]"

definition example_payload :: "jsval \<Rightarrow> jsval \<Rightarrow> jsval \<Rightarrow> jsval" where
  "example_payload clause readiness risk =
     JObj [(''overview'', example_overview), (''clauses'', JArr [clause]),
           (''dealReadiness'', readiness), (''riskAssessment'', risk),
           (''commercialSummary'', example_commercial)]"

definition payload_without_dealReadiness :: jsval where
  "payload_without_dealReadiness =
     JObj [(''overview'', example_overview), (''clauses'', JArr []),
           (''riskAssessment'', example_risk ''Low''), (''commercialSummary'', example_commercial)]"

section \<open>Evaluation rules\<close>

lemma char_eq_char_of: "(c = char_of (n::nat)) = (take_bit 8 n = of_char c)"
  using char_of_eq_iff[of n c] by auto

lemmas lower_eval = toLowerCase_def toLowerChar_def char_eq_char_of char_of_eq_iff


section \<open>Strings\<close>

lemma str_includes_sublist: "str_includes s sub = sublist sub s"
  by (induction s) (auto simp: sublist_Cons_right)

lemma includes_toLowerCase:
  "str_includes (toLowerCase s) w = contains_ignoring_case s w"
proof
  assume "str_includes (toLowerCase s) w"
  then obtain ps ss where "map toLowerChar s = ps @ w @ ss"
    by (auto simp: str_includes_sublist sublist_def toLowerCase_def)
  then obtain ps' r where 1: "s = ps' @ r" "map toLowerChar r = w @ ss"
    by (metis map_eq_append_conv)
  then obtain u ss' where 2: "r = u @ ss'" "map toLowerChar u = w"
    by (metis map_eq_append_conv)
  show "contains_ignoring_case s w"
    unfolding contains_ignoring_case_def toLowerCase_def using 1 2 by blast
next
  assume "contains_ignoring_case s w"
  then obtain ps u ss where "s = ps @ u @ ss" "map toLowerChar u = w"
    by (auto simp: contains_ignoring_case_def toLowerCase_def)
  then have "map toLowerChar s = map toLowerChar ps @ w @ map toLowerChar ss" by simp
  then show "str_includes (toLowerCase s) w"
    unfolding str_includes_sublist sublist_def toLowerCase_def by blast
qed

lemmas parse_eval = parseFloat_def unsigned_literal_def fraction_part_def isWhiteSpace_def
  isDigit_def digits_val_def decimal_value_def

section \<open>Rounding to binary64\<close>

lemma round_half_even_ge:
  assumes "of_int n \<le> x"
  shows "n \<le> round_half_even x"
proof -
  have "n \<le> \<lfloor>x\<rfloor>" using assms by (simp add: le_floor_iff)
  then show ?thesis by (auto simp: round_half_even_def Let_def)
qed

lemma floor_log2_lower:
  assumes "0 < x"
  shows "2 powi (floor_log2 x) \<le> x"
proof -
  obtain n d where nd: "quotient_of x = (n, d)" by (cases "quotient_of x")
  have d: "0 < d" using quotient_of_denom_pos[OF nd] .
  have x: "x = of_int n / of_int d" using quotient_of_div[OF nd] .
  have n: "0 < n" using assms d unfolding x by (simp add: zero_less_divide_iff)
  let ?e0 = "bitlen n - bitlen d"
  show ?thesis
  proof (cases "2 powi ?e0 \<le> x")
    case True
    then show ?thesis by (simp add: floor_log2_def nd)
  next
    case False
    then have fl: "floor_log2 x = ?e0 - 1" by (simp add: floor_log2_def nd)
    have bn: "2 ^ nat (bitlen n - 1) \<le> n" and bd: "d < 2 ^ nat (bitlen d)"
      using bitlen_bounds[OF n] bitlen_bounds[OF d] by simp_all
    have bn': "(2::rat) ^ nat (bitlen n - 1) \<le> of_int n"
      using bn by (metis of_int_le_iff of_int_numeral of_int_power)
    have bd': "(of_int d :: rat) \<le> 2 ^ nat (bitlen d)"
      using bd by (metis less_imp_le of_int_le_iff of_int_numeral of_int_power)
    have n1: "1 \<le> bitlen n" using n by (simp add: bitlen_alt_def)
    have "(2::rat) powi (?e0 - 1) = 2 powi (bitlen n - 1) / 2 powi (bitlen d)"
      using power_int_diff[of "2::rat" "bitlen n - 1" "bitlen d"] by (simp add: algebra_simps)
    also have "\<dots> = 2 ^ nat (bitlen n - 1) / 2 ^ nat (bitlen d)"
      using n1 bitlen_nonneg[of d] by (simp add: power_int_def)
    also have "\<dots> \<le> of_int n / of_int d"
      using bn' bd' d n by (intro frac_le) simp_all
    also have "\<dots> = x" using x by simp
    finally show ?thesis unfolding fl .
  qed
qed

lemma floor_log2_upper:
  assumes "0 < x"
  shows "x < 2 powi (floor_log2 x + 1)"
proof -
  obtain n d where nd: "quotient_of x = (n, d)" by (cases "quotient_of x")
  have d: "0 < d" using quotient_of_denom_pos[OF nd] .
  have x: "x = of_int n / of_int d" using quotient_of_div[OF nd] .
  have n: "0 < n" using assms d unfolding x by (simp add: zero_less_divide_iff)
  let ?e0 = "bitlen n - bitlen d"
  show ?thesis
  proof (cases "2 powi ?e0 \<le> x")
    case False
    then show ?thesis by (simp add: floor_log2_def nd)
  next
    case True
    then have fl: "floor_log2 x = ?e0" by (simp add: floor_log2_def nd)
    have bn: "n < 2 ^ nat (bitlen n)" and bd: "2 ^ nat (bitlen d - 1) \<le> d"
      using bitlen_bounds[OF n] bitlen_bounds[OF d] by simp_all
    have bn': "(of_int n :: rat) < 2 ^ nat (bitlen n)"
      using bn by (metis of_int_less_iff of_int_numeral of_int_power)
    have bd': "(2::rat) ^ nat (bitlen d - 1) \<le> of_int d"
      using bd by (metis of_int_le_iff of_int_numeral of_int_power)
    have d1: "1 \<le> bitlen d" using d by (simp add: bitlen_alt_def)
    have "x = of_int n / of_int d" by (rule x)
    also have "\<dots> < 2 ^ nat (bitlen n) / 2 ^ nat (bitlen d - 1)"
      using bn' bd' n by (intro frac_less) simp_all
    also have "\<dots> = 2 powi (bitlen n) / 2 powi (bitlen d - 1)"
      using d1 bitlen_nonneg[of n] by (simp add: power_int_def)
    also have "\<dots> = (2::rat) powi (?e0 + 1)"
      using power_int_diff[of "2::rat" "bitlen n" "bitlen d - 1"] by (simp add: algebra_simps)
    finally show ?thesis unfolding fl .
  qed
qed

lemma binary64_not_NaN: "binary64 q \<noteq> NaN"
  by (simp add: binary64_def Let_def signed_inf_def signed_zero_def)

lemma binary64_nonzero:
  assumes "q \<noteq> 0"
    and "k = max (floor_log2 \<bar>q\<bar> - 52) (- 1074)"
    and "m = round_half_even (\<bar>q\<bar> / 2 powi k)"
  shows "binary64 q =
      (if 971 < k \<or> (k = 971 \<and> m = 2 ^ 53) then signed_inf (q < 0)
       else if m = 0 then signed_zero (q < 0)
       else Fin (sgn q * of_int m * 2 powi k))"
  using assms(1) unfolding binary64_def Let_def assms(2,3) by (simp only: if_False)

lemma ulp_le:
  assumes "q \<noteq> 0" "2 powi (- 1074) \<le> \<bar>q\<bar>"
  shows "2 powi (max (floor_log2 \<bar>q\<bar> - 52) (- 1074)) \<le> \<bar>q\<bar>"
proof (cases "floor_log2 \<bar>q\<bar> - 52 \<le> - 1074")
  case True
  then show ?thesis using assms(2) by (simp add: max_def)
next
  case False
  have "(2::rat) powi (floor_log2 \<bar>q\<bar> - 52) \<le> 2 powi (floor_log2 \<bar>q\<bar>)"
    by (rule power_int_increasing) simp_all
  also have "\<dots> \<le> \<bar>q\<bar>" using assms(1) by (intro floor_log2_lower) simp
  finally show ?thesis using False by (simp add: max_def)
qed

lemma grid64_abs_ge:
  assumes "grid64 q" "q \<noteq> 0"
  shows "2 powi (- 1074) \<le> \<bar>q\<bar>"
proof -
  obtain z :: int where z: "q = of_int z * 2 powi (- 1074)"
    using assms(1) by (auto simp: grid64_def)
  have "z \<noteq> 0" using assms(2) z by auto
  then have "(1::rat) \<le> \<bar>of_int z\<bar>" by (simp flip: of_int_abs add: of_int_le_iff[symmetric] del: of_int_le_iff)
  then have "1 * 2 powi (- 1074) \<le> \<bar>of_int z\<bar> * (2::rat) powi (- 1074)"
    by (intro mult_right_mono) simp_all
  then show ?thesis unfolding z by (simp add: abs_mult)
qed

lemma binary64_cases:
  assumes "grid64 q" "q \<noteq> 0"
  obtains "binary64 q = signed_inf (q < 0)"
  | r where "binary64 q = Fin r" "0 < r \<longleftrightarrow> 0 < q" "r \<noteq> 0"
proof -
  define k where "k = max (floor_log2 \<bar>q\<bar> - 52) (- 1074)"
  define m where "m = round_half_even (\<bar>q\<bar> / 2 powi k)"
  note b = binary64_nonzero[OF assms(2) k_def m_def]
  have "2 powi k \<le> \<bar>q\<bar>"
    unfolding k_def using ulp_le[OF assms(2) grid64_abs_ge[OF assms]] .
  then have "(of_int 1 :: rat) \<le> \<bar>q\<bar> / 2 powi k"
    by (simp add: le_divide_eq)
  then have m: "1 \<le> m" unfolding m_def by (rule round_half_even_ge)
  show ?thesis
  proof (cases "971 < k \<or> (k = 971 \<and> m = 2 ^ 53)")
    case True
    then have "binary64 q = signed_inf (q < 0)"
      unfolding b by (simp only: if_True)
    then show ?thesis by (rule that(1))
  next
    case False
    then have b': "binary64 q = Fin (sgn q * of_int m * 2 powi k)"
      unfolding b using m by auto
    have p: "(0::rat) < of_int m * 2 powi k" using m by (simp add: zero_less_mult_iff)
    have s: "sgn q * (of_int m * 2 powi k) =
        (if 0 < q then of_int m * 2 powi k else - (of_int m * 2 powi k))"
      using assms(2) by (simp add: sgn_if)
    have "0 < sgn q * (of_int m * 2 powi k) \<longleftrightarrow> 0 < q"
      unfolding s using p by (cases "0 < q") simp_all
    moreover have "sgn q * (of_int m * 2 powi k) \<noteq> 0"
      unfolding s using p m by (cases "0 < q") simp_all
    ultimately show ?thesis using b' that(2)[of "sgn q * of_int m * 2 powi k"]
      by (simp add: mult.assoc)
  qed
qed

lemma grid64_minus: "grid64 a \<Longrightarrow> grid64 (- a)"
proof -
  assume "grid64 a"
  then obtain z :: int where "a = of_int z * 2 powi (- 1074)" by (auto simp: grid64_def)
  then have "- a = of_int (- z) * 2 powi (- 1074)" by simp
  then show ?thesis unfolding grid64_def by blast
qed

lemma grid64_diff: "grid64 a \<Longrightarrow> grid64 b \<Longrightarrow> grid64 (a - b)"
proof -
  assume "grid64 a" "grid64 b"
  then obtain y z :: int where "a = of_int y * 2 powi (- 1074)" "b = of_int z * 2 powi (- 1074)"
    by (auto simp: grid64_def)
  then have "a - b = of_int (y - z) * 2 powi (- 1074)" by (simp add: algebra_simps)
  then show ?thesis unfolding grid64_def by blast
qed

lemma binary64_grid:
  assumes "binary64 q = Fin r"
  shows "grid64 r"
proof (cases "q = 0")
  case True
  then have "r = of_int 0 * 2 powi (- 1074)" using assms by (simp add: binary64_def)
  then show ?thesis unfolding grid64_def by blast
next
  case False
  define k where "k = max (floor_log2 \<bar>q\<bar> - 52) (- 1074)"
  define m where "m = round_half_even (\<bar>q\<bar> / 2 powi k)"
  note b = binary64_nonzero[OF False k_def m_def]
  have k: "- 1074 \<le> k" by (simp add: k_def)
  have "(2::rat) powi k = 2 powi (k + 1074) * 2 powi (- 1074)"
    using power_int_add[of "2::rat" "k + 1074" "- 1074"] by simp
  also have "(2::rat) powi (k + 1074) = of_int (2 ^ nat (k + 1074))"
    using k by (simp add: power_int_def)
  finally have pk: "(2::rat) powi k = of_int (2 ^ nat (k + 1074)) * 2 powi (- 1074)" .
  have "r = 0 \<or> r = sgn q * of_int m * 2 powi k"
    using assms unfolding b by (auto simp: signed_inf_def signed_zero_def split: if_splits)
  then show ?thesis
  proof
    assume "r = 0"
    then have "r = of_int 0 * 2 powi (- 1074)" by simp
    then show ?thesis unfolding grid64_def by blast
  next
    assume "r = sgn q * of_int m * 2 powi k"
    then have "r = of_int (sgn (if 0 < q then 1 else - 1) * m * 2 ^ nat (k + 1074)) * 2 powi (- 1074)"
      using False unfolding pk by (simp add: sgn_if)
    then show ?thesis unfolding grid64_def by blast
  qed
qed

lemma js_ge_zero_iff: "js_ge x (Fin 0) = (x = PInf \<or> is_zero x \<or> 0 < fin_val x)"
  by (cases x) (auto simp: js_ge_def isNaN_def)

lemma js_ge_binary64:
  assumes "grid64 q"
  shows "js_ge (binary64 q) (Fin 0) = (0 \<le> q)"
proof (cases "q = 0")
  case True
  then show ?thesis by (simp add: binary64_def js_ge_def isNaN_def)
next
  case False
  from assms False show ?thesis
  proof (cases rule: binary64_cases)
    case 1
    then show ?thesis using False by (auto simp: signed_inf_def js_ge_def isNaN_def)
  next
    case (2 r)
    then show ?thesis using False by (auto simp: js_ge_def isNaN_def)
  qed
qed

lemma binary64_underflow:
  assumes "0 < q" "q \<le> 2 powi (- 1075)"
  shows "binary64 q = Fin 0"
proof -
  define j :: int where "j = - 1074"
  define k where "k = max (floor_log2 \<bar>q\<bar> - 52) (- 1074)"
  define m where "m = round_half_even (\<bar>q\<bar> / 2 powi k)"
  have "q \<noteq> 0" using assms(1) by simp
  note b = binary64_nonzero[OF this k_def m_def]
  have q2: "q \<le> 2 powi (j - 1)" using assms(2) by (simp add: j_def)
  have "floor_log2 q \<le> j - 1"
  proof (rule ccontr)
    assume "\<not> floor_log2 q \<le> j - 1"
    then have "j - 1 < floor_log2 q" by simp
    then have "(2::rat) powi (j - 1) < 2 powi (floor_log2 q)"
      by (intro power_int_strict_increasing) simp_all
    also have "\<dots> \<le> q" by (rule floor_log2_lower[OF assms(1)])
    finally show False using q2 by simp
  qed
  then have k: "k = j" using assms(1) by (simp add: k_def j_def)
  have half: "(2::rat) powi (j - 1) / 2 powi j = 1 / 2"
    by (simp add: power_int_diff)
  define y where "y = q / 2 powi j"
  have "q / 2 powi j \<le> 2 powi (j - 1) / 2 powi j"
    using q2 by (intro divide_right_mono) simp_all
  then have x: "y \<le> 1 / 2" unfolding half y_def .
  have x0: "0 \<le> y" using assms(1) by (simp add: y_def)
  have fl: "\<lfloor>y\<rfloor> = 0"
    using x x0 by (simp add: floor_eq_iff)
  have "round_half_even y = 0"
    using x fl unfolding round_half_even_def Let_def by simp
  then have "m = 0"
    using assms(1) unfolding m_def k y_def by simp
  then show ?thesis
    using assms(1) unfolding b k by (simp add: j_def signed_zero_def)
qed

lemma binary64_overflow:
  assumes "2 powi 1024 \<le> \<bar>q\<bar>"
  shows "binary64 q = signed_inf (q < 0)"
proof -
  define j :: int where "j = 1024"
  define k where "k = max (floor_log2 \<bar>q\<bar> - 52) (- 1074)"
  define m where "m = round_half_even (\<bar>q\<bar> / 2 powi k)"
  have q2: "2 powi j \<le> \<bar>q\<bar>" using assms by (simp add: j_def)
  have "(0::rat) < 2 powi j" by simp
  then have pos: "0 < \<bar>q\<bar>" using q2 by (rule less_le_trans)
  then have "q \<noteq> 0" by simp
  note b = binary64_nonzero[OF this k_def m_def]
  have "j \<le> floor_log2 \<bar>q\<bar>"
  proof (rule ccontr)
    assume "\<not> j \<le> floor_log2 \<bar>q\<bar>"
    then have "floor_log2 \<bar>q\<bar> + 1 \<le> j" by simp
    then have "(2::rat) powi (floor_log2 \<bar>q\<bar> + 1) \<le> 2 powi j"
      by (intro power_int_increasing) simp_all
    with floor_log2_upper[OF pos] have "\<bar>q\<bar> < 2 powi j"
      by (rule less_le_trans)
    then show False using q2 by simp
  qed
  then have "971 < k" by (simp add: k_def j_def)
  then show ?thesis unfolding b by simp
qed

section \<open>Arithmetic\<close>

lemma js_sub_Fin: "js_sub (Fin a) (Fin b) = binary64 (a - b)"
  by (simp add: js_sub_def js_add_def isNaN_def)

lemma js_div_Fin: "a \<noteq> 0 \<Longrightarrow> b \<noteq> 0 \<Longrightarrow> js_div (Fin a) (Fin b) = binary64 (a / b)"
  by (simp add: js_div_def isNaN_def)

lemma js_mul_Fin: "a \<noteq> 0 \<Longrightarrow> b \<noteq> 0 \<Longrightarrow> js_mul (Fin a) (Fin b) = binary64 (a * b)"
  by (simp add: js_mul_def isNaN_def)

lemma js_sub_zero_not_NaN:
  assumes "is_zero z" "\<not> isNaN x"
  shows "\<not> isNaN (js_sub z x)"
  using assms binary64_not_NaN
  by (cases z; cases x) (auto simp: js_sub_def js_add_def isNaN_def)

lemma zero_denominator:
  assumes "is_zero z" "\<not> isNaN x"
  shows "js_mul (js_div (js_sub z x) z) (Fin 100) \<in> {PInf, NInf, NaN}"
proof -
  have s: "js_sub z x \<noteq> NaN" using js_sub_zero_not_NaN[OF assms] by (simp add: isNaN_def)
  have z: "z \<noteq> NaN" "\<not> is_inf z" using assms(1) by (cases z; simp)+
  have "js_div (js_sub z x) z \<in> {PInf, NInf, NaN}"
    using s z assms(1) by (auto simp: js_div_def isNaN_def signed_inf_def)
  then show ?thesis
    by (auto simp: js_mul_def isNaN_def signed_inf_def)
qed

text \<open>Some roundings: 0.1, a tie, 0.3 - 0.1 and (2/3) * 100.\<close>

lemma binary64_examples:
  "binary64 (1 / 10) = Fin (3602879701896397 / 36028797018963968)"
  "binary64 9007199254740993 = Fin 9007199254740992"
  "binary64 9007199254740995 = Fin 9007199254740996"
  "js_sub (binary64 (3 / 10)) (binary64 (1 / 10)) = Fin (7205759403792793 / 36028797018963968)"
  "js_mul (binary64 (2 / 3)) (Fin 100) = Fin (2345624805922133 / 35184372088832)"
  by code_simp+

section \<open>parseFloat and trailing text\<close>

lemma takeWhile_append_stop:
  "(case t of [] \<Rightarrow> True | c # _ \<Rightarrow> \<not> P c) \<Longrightarrow> takeWhile P (xs @ t) = takeWhile P xs"
  by (induction xs) (auto split: list.splits)

lemma dropWhile_append_stop:
  "(case t of [] \<Rightarrow> True | c # _ \<Rightarrow> \<not> P c) \<Longrightarrow> dropWhile P (xs @ t) = dropWhile P xs @ t"
  by (induction xs) (auto split: list.splits)

lemma no_digit_start:
  "\<not> starts_digit t \<Longrightarrow> (case t of [] \<Rightarrow> True | c # _ \<Rightarrow> \<not> isDigit c)"
  by (auto simp: starts_digit_def split: list.splits)

lemma takeWhile_digit_append:
  "\<not> starts_digit t \<Longrightarrow> takeWhile isDigit (xs @ t) = takeWhile isDigit xs"
  by (rule takeWhile_append_stop) (rule no_digit_start)

lemma dropWhile_digit_append:
  "\<not> starts_digit t \<Longrightarrow> dropWhile isDigit (xs @ t) = dropWhile isDigit xs @ t"
  by (rule dropWhile_append_stop) (rule no_digit_start)

lemma takeWhile_digit_stop:
  "\<not> starts_digit t \<Longrightarrow> takeWhile isDigit t = []"
  using takeWhile_digit_append[of t "[]"] by simp

lemma dropWhile_digit_stop:
  "\<not> starts_digit t \<Longrightarrow> dropWhile isDigit t = t"
  using dropWhile_digit_append[of t "[]"] by simp

lemma trailing_textD:
  assumes "trailing_text t"
  shows "\<not> starts_digit t" "\<not> starts_signed_digit t" "\<not> starts_exponent t"
  using assms by (simp_all add: trailing_text_def)

lemma exponent_part_zero:
  assumes "\<not> starts_exponent t"
  shows "exponent_part t = 0"
proof (cases t)
  case Nil
  then show ?thesis by simp
next
  case (Cons c r)
  show ?thesis
  proof (cases "c = CHR ''e'' \<or> c = CHR ''E''")
    case False
    then show ?thesis using Cons by simp
  next
    case True
    then have r: "\<not> starts_digit r" "\<not> starts_signed_digit r"
      using assms Cons by (auto simp: starts_exponent_def)
    show ?thesis
    proof (cases r)
      case Nil
      then show ?thesis using Cons True by auto
    next
      case (Cons s r')
      have "s = CHR ''+'' \<or> s = CHR ''-'' \<Longrightarrow> takeWhile isDigit r' = []"
        using r(2) Cons by (intro takeWhile_digit_stop) (auto simp: starts_signed_digit_def)
      moreover have "takeWhile isDigit r = []"
        using r(1) by (rule takeWhile_digit_stop)
      ultimately show ?thesis
        using \<open>t = c # r\<close> True Cons by (auto simp: digits_val_def)
    qed
  qed
qed

lemma exponent_part_append:
  assumes "trailing_text t"
  shows "exponent_part (r @ t) = exponent_part r"
proof (cases r)
  case Nil
  then show ?thesis using trailing_textD(3)[OF assms] by (simp add: exponent_part_zero)
next
  case (Cons c r')
  note t = trailing_textD[OF assms]
  show ?thesis
  proof (cases r')
    case Nil
    have "\<not> starts_exponent (c # t)"
      using t by (auto simp: starts_exponent_def)
    then have "exponent_part (c # t) = 0" by (rule exponent_part_zero)
    then show ?thesis using Cons Nil by auto
  next
    case (Cons s r'')
    have "takeWhile isDigit (r'' @ t) = takeWhile isDigit r''"
      using t(1) by (rule takeWhile_digit_append)
    moreover have "takeWhile isDigit ((s # r'') @ t) = takeWhile isDigit (s # r'')"
      using t(1) by (rule takeWhile_digit_append)
    ultimately show ?thesis
      using \<open>r = c # r'\<close> Cons by simp
  qed
qed

lemma fraction_part_append:
  assumes "trailing_text t"
  shows "fst (fraction_part (r @ t)) = fst (fraction_part r)"
    and "exponent_part (snd (fraction_part (r @ t))) = exponent_part (snd (fraction_part r))"
proof -
  note t = trailing_textD[OF assms]
  have "fst (fraction_part (r @ t)) = fst (fraction_part r)
      \<and> exponent_part (snd (fraction_part (r @ t))) = exponent_part (snd (fraction_part r))"
  proof (cases r)
    case Nil
    show ?thesis
    proof (cases t)
      case Nil
      then show ?thesis using \<open>r = []\<close> by simp
    next
      case (Cons c t')
      show ?thesis
      proof (cases "c = CHR ''.''")
        case True
        then have t': "\<not> starts_digit t'" "\<not> starts_exponent t'"
          using assms Cons by (simp_all add: trailing_text_def)
        then show ?thesis
          using \<open>r = []\<close> Cons True
          by (simp add: fraction_part_def takeWhile_digit_stop dropWhile_digit_stop exponent_part_zero)
      next
        case False
        have "exponent_part (c # t') = 0"
          using exponent_part_zero[OF t(3)] unfolding Cons .
        moreover have "exponent_part [] = 0" by simp
        ultimately show ?thesis
          using \<open>r = []\<close> Cons False by (simp add: fraction_part_def del: exponent_part.simps)
      qed
    qed
  next
    case (Cons c r')
    have "exponent_part (dropWhile isDigit r' @ t) = exponent_part (dropWhile isDigit r')"
      and "exponent_part ((c # r') @ t) = exponent_part (c # r')"
      using assms by (rule exponent_part_append)+
    then show ?thesis
      using Cons t(1)
      by (simp add: fraction_part_def takeWhile_digit_append dropWhile_digit_append
            del: exponent_part.simps)
  qed
  then show "fst (fraction_part (r @ t)) = fst (fraction_part r)"
    and "exponent_part (snd (fraction_part (r @ t))) = exponent_part (snd (fraction_part r))"
    by simp_all
qed

lemma unsigned_literal_eq:
  "unsigned_literal r =
     (if prefix ''Infinity'' r then Some PInf
      else if takeWhile isDigit r = [] \<and> fst (fraction_part (dropWhile isDigit r)) = [] then None
      else Some (binary64 (decimal_value
             (digits_val (takeWhile isDigit r @ fst (fraction_part (dropWhile isDigit r))))
             (exponent_part (snd (fraction_part (dropWhile isDigit r)))
                - int (length (fst (fraction_part (dropWhile isDigit r))))))))"
  by (simp add: unsigned_literal_def Let_def case_prod_beta)

lemma unsigned_literal_first:
  assumes "unsigned_literal r = Some v" "\<not> prefix ''Infinity'' r"
  shows "\<exists>c r'. r = c # r' \<and> c \<noteq> CHR ''I''"
proof (cases r)
  case Nil
  then show ?thesis using assms by (simp add: unsigned_literal_eq fraction_part_def)
next
  case (Cons c r')
  have "c \<noteq> CHR ''I''"
  proof
    assume "c = CHR ''I''"
    then have "unsigned_literal r = None"
      using Cons assms(2) by (simp add: unsigned_literal_eq fraction_part_def isDigit_def)
    then show False using assms(1) by simp
  qed
  then show ?thesis using Cons by simp
qed

lemma unsigned_literal_append:
  assumes "unsigned_literal r = Some v" "trailing_text t"
  shows "unsigned_literal (r @ t) = Some v"
proof (cases "prefix ''Infinity'' r")
  case True
  then have "prefix ''Infinity'' (r @ t)" by (rule prefix_prefix)
  then show ?thesis using True assms(1) by (simp add: unsigned_literal_eq)
next
  case False
  obtain c r' where r: "r = c # r'" "c \<noteq> CHR ''I''"
    using unsigned_literal_first[OF assms(1) False] by blast
  then have np: "\<not> prefix ''Infinity'' (r @ t)" by simp
  note t = trailing_textD[OF assms(2)]
  have dw: "dropWhile isDigit (r @ t) = dropWhile isDigit r @ t"
    using t(1) by (rule dropWhile_digit_append)
  have tw: "takeWhile isDigit (r @ t) = takeWhile isDigit r"
    using t(1) by (rule takeWhile_digit_append)
  have "unsigned_literal (r @ t) = unsigned_literal r"
    using False np
    by (simp only: unsigned_literal_eq[of "r @ t"] unsigned_literal_eq[of r] dw tw
          fraction_part_append[OF assms(2)] if_False)
  then show ?thesis using assms(1) by simp
qed

lemma parseFloat_append:
  assumes "\<not> isNaN (parseFloat d)" "trailing_text t"
  shows "parseFloat (d @ t) = parseFloat d"
proof (cases "dropWhile isWhiteSpace d")
  case Nil
  have "parseFloat d = NaN" unfolding parseFloat_def Nil by simp
  then show ?thesis using assms(1) by (simp add: isNaN_def)
next
  case (Cons c r)
  then have "c \<in> set d \<and> \<not> isWhiteSpace c"
    by (metis dropWhile_eq_Cons_conv in_set_conv_decomp)
  then have dw: "dropWhile isWhiteSpace (d @ t) = c # r @ t"
    using Cons dropWhile_append1[of c d isWhiteSpace t] by simp
  have some: "\<And>x. unsigned_literal x \<noteq> None \<Longrightarrow> unsigned_literal (x @ t) = unsigned_literal x"
    using unsigned_literal_append[OF _ assms(2)] by auto
  show ?thesis
    using assms(1) Cons some[of r] some[of "c # r"]
    by (auto simp: parseFloat_def isNaN_def dw split: option.splits)
qed

lemma grid64_zero: "grid64 0"
proof -
  have "(0::rat) = of_int 0 * 2 powi (- 1074)" by simp
  then show ?thesis unfolding grid64_def by blast
qed

lemma unsigned_literal_value:
  assumes "unsigned_literal r = Some v"
  shows "v = PInf \<or> (\<exists>q. v = binary64 q)"
  using assms by (auto simp: unsigned_literal_eq split: if_splits)

lemma js_neg_grid:
  assumes "js_neg v = Fin a" "v = PInf \<or> (\<exists>q. v = binary64 q)"
  shows "grid64 a"
proof (cases v)
  case (Fin r)
  then have "grid64 r" using assms(2) binary64_grid by auto
  moreover have "a = - r" using assms(1) Fin by (auto split: if_splits)
  ultimately show ?thesis by (simp add: grid64_minus)
next
  case NZero
  then show ?thesis using assms(1) by (auto simp: grid64_zero)
qed (use assms in auto)

lemma parseFloat_grid:
  assumes "parseFloat s = Fin a"
  shows "grid64 a"
proof (cases "dropWhile isWhiteSpace s")
  case Nil
  have "parseFloat s = NaN" unfolding parseFloat_def Nil by simp
  then show ?thesis using assms by simp
next
  case (Cons c r)
  show ?thesis
  proof (cases "c = CHR ''-''")
    case True
    then obtain v where v: "unsigned_literal r = Some v" "js_neg v = Fin a"
      using assms Cons by (auto simp: parseFloat_def split: option.splits)
    show ?thesis using js_neg_grid[OF v(2) unsigned_literal_value[OF v(1)]] .
  next
    case False
    then obtain x where "unsigned_literal x = Some (Fin a)"
      using assms Cons by (auto simp: parseFloat_def split: option.splits if_splits)
    then show ?thesis using unsigned_literal_value binary64_grid by fastforce
  qed
qed

text \<open>
  A plain decimal text, digits with a dot and more digits, reads as the binary64 value
  of its decimal value.
\<close>

lemma parseFloat_plain_decimal:
  assumes "ip \<noteq> []" "\<forall>c\<in>set ip. isDigit c" "\<forall>c\<in>set fp. isDigit c"
  shows "parseFloat (ip @ ''.'' @ fp) =
           binary64 (of_int (digits_val (ip @ fp)) / 10 ^ length fp)"
proof -
  obtain c ip' where ip: "ip = c # ip'" using assms(1) by (cases ip) auto
  have c: "isDigit c" using assms(2) ip by simp
  then have cw: "\<not> isWhiteSpace c" "c \<noteq> CHR ''-''" "c \<noteq> CHR ''+''" "c \<noteq> CHR ''I''"
    by (auto simp: isDigit_def isWhiteSpace_def)
  have nd: "\<not> isDigit CHR ''.''" by (simp add: isDigit_def)
  have tw: "takeWhile isDigit (ip @ CHR ''.'' # fp) = ip"
    using assms(2) nd by simp
  have dw: "dropWhile isDigit (ip @ CHR ''.'' # fp) = CHR ''.'' # fp"
    using assms(2) nd by simp
  have fr: "fraction_part (CHR ''.'' # fp) = (fp, [])"
    using assms(3) by (simp add: fraction_part_def)
  have np: "\<not> prefix ''Infinity'' (ip @ CHR ''.'' # fp)" using ip cw by simp
  have "unsigned_literal (ip @ CHR ''.'' # fp) =
      Some (binary64 (decimal_value (digits_val (ip @ fp)) (- int (length fp))))"
    using np assms(1) by (simp add: unsigned_literal_eq tw dw fr)
  moreover have "decimal_value (digits_val (ip @ fp)) (- int (length fp)) =
      of_int (digits_val (ip @ fp)) / 10 ^ length fp"
    by (cases "fp = []") (simp_all add: decimal_value_def)
  ultimately show ?thesis
    using ip cw by (simp add: parseFloat_def)
qed

text \<open>Texts at the edges of the binary64 range, and two that need rounding.\<close>

lemma parseFloat_examples:
  "parseFloat ''1e309'' = PInf"
  "parseFloat ''1e-400'' = Fin 0"
  "parseFloat ''0.1'' = Fin (3602879701896397 / 36028797018963968)"
  "parseFloat ''9007199254740993'' = Fin 9007199254740992"
proof -
  have "parseFloat ''1e309'' = binary64 (10 ^ 309)"
    by (simp add: parse_eval)
  also have "\<dots> = signed_inf (10 ^ 309 < (0::rat))"
    by (rule binary64_overflow) (simp add: power_int_def)
  finally show "parseFloat ''1e309'' = PInf" by (simp add: signed_inf_def)
  have "parseFloat ''1e-400'' = binary64 (1 / 10 ^ 400)"
    by (simp add: parse_eval)
  also have "\<dots> = Fin 0"
  proof (rule binary64_underflow)
    have "(2::rat) powi (- 1075) = 1 / 2 ^ 1075"
      by (simp add: power_int_def power_one_over)
    moreover have "(1::rat) / 10 ^ 400 \<le> 1 / 2 ^ 1075"
      by (rule frac_le) simp_all
    ultimately show "(1::rat) / 10 ^ 400 \<le> 2 powi (- 1075)" by simp
  qed simp
  finally show "parseFloat ''1e-400'' = Fin 0" .
  show "parseFloat ''0.1'' = Fin (3602879701896397 / 36028797018963968)"
    and "parseFloat ''9007199254740993'' = Fin 9007199254740992"
    by code_simp+
qed

section \<open>The slack calculator\<close>

lemma calculateSlack_parsed:
  assumes "\<not> isNaN (parseFloat l)" "\<not> isNaN (parseFloat a)"
  shows "calculateSlack l a nm =
     (if str_includes (toLowerCase nm) ''leverage'' \<or> str_includes (toLowerCase nm) ''debt''
      then Some \<lparr>slack = js_sub (parseFloat l) (parseFloat a),
                 percentage = js_mul (js_div (js_sub (parseFloat l) (parseFloat a)) (parseFloat l)) (Fin 100),
                 isSafe = js_ge (js_sub (parseFloat l) (parseFloat a)) (Fin 0), isMax = True\<rparr>
      else Some \<lparr>slack = js_sub (parseFloat a) (parseFloat l),
                 percentage = js_mul (js_div (js_sub (parseFloat a) (parseFloat l)) (parseFloat a)) (Fin 100),
                 isSafe = js_ge (js_sub (parseFloat a) (parseFloat l)) (Fin 0), isMax = False\<rparr>)"
  using assms by (simp add: calculateSlack_def Let_def)

text \<open>
  The result of \<open>calculateSlack\<close> on two texts that parse, field by field; whether it
  is safe is read off the sign of the slack.
\<close>

lemma calculateSlack_fields:
  assumes "\<not> isNaN (parseFloat l)" "\<not> isNaN (parseFloat a)"
  shows "\<exists>r. calculateSlack l a nm = Some r
      \<and> isMax r = (contains_ignoring_case nm ''leverage'' \<or> contains_ignoring_case nm ''debt'')
      \<and> slack r = (if isMax r then js_sub (parseFloat l) (parseFloat a)
                   else js_sub (parseFloat a) (parseFloat l))
      \<and> percentage r =
          js_mul (js_div (slack r) (if isMax r then parseFloat l else parseFloat a)) (Fin 100)
      \<and> isSafe r = (slack r = PInf \<or> is_zero (slack r) \<or> 0 < fin_val (slack r))"
  unfolding calculateSlack_parsed[OF assms] includes_toLowerCase
  by (simp add: js_ge_zero_iff)

text \<open>
  Between two finite numbers that \<open>parseFloat\<close> returned, the rounded difference has
  the sign of the exact difference: it is not rounded to zero.
\<close>

lemma js_sub_parsed:
  assumes "parseFloat l = Fin a" "parseFloat t = Fin b"
  shows "js_sub (parseFloat l) (parseFloat t) = binary64 (a - b)"
    and "js_ge (js_sub (parseFloat l) (parseFloat t)) (Fin 0) = (b \<le> a)"
proof -
  have g: "grid64 (a - b)"
    using parseFloat_grid[OF assms(1)] parseFloat_grid[OF assms(2)] by (rule grid64_diff)
  show "js_sub (parseFloat l) (parseFloat t) = binary64 (a - b)"
    unfolding assms by (rule js_sub_Fin)
  then show "js_ge (js_sub (parseFloat l) (parseFloat t)) (Fin 0) = (b \<le> a)"
    using js_ge_binary64[OF g] by simp
qed

text \<open>
  C4. When both texts parse, \<open>calculateSlack\<close> returns a result. A clause name that
  contains "leverage" or "debt" in any letter case gives the type max, with
  slack = limit - actual and percentage = (slack / limit) * 100; any other name gives
  the type min, with slack = actual - limit and percentage = (slack / actual) * 100,
  each operation in binary64 arithmetic. In both cases isSafe = (slack >= 0): the
  result is safe when the slack is positive or a zero, so a slack of zero is
  compliant. For finite numbers the slack is the exact difference rounded to binary64,
  a max-type covenant is safe exactly when actual <= limit, a min-type covenant
  exactly when limit <= actual, and the percentage is the rounded quotient times 100,
  rounded again.
\<close>

theorem calculateSlack_formula:
  assumes "parseFloat limitStr = limit" "parseFloat actualStr = actual"
    and "\<not> isNaN limit" "\<not> isNaN actual"
  shows "\<exists>r. calculateSlack limitStr actualStr nm = Some r
      \<and> isMax r = (contains_ignoring_case nm ''leverage'' \<or> contains_ignoring_case nm ''debt'')
      \<and> slack r = (if isMax r then js_sub limit actual else js_sub actual limit)
      \<and> percentage r = js_mul (js_div (slack r) (if isMax r then limit else actual)) (Fin 100)
      \<and> isSafe r = (slack r = PInf \<or> is_zero (slack r) \<or> 0 < fin_val (slack r))
      \<and> (\<forall>a b. limit = Fin a \<and> actual = Fin b \<longrightarrow>
            slack r = binary64 (if isMax r then a - b else b - a)
            \<and> isSafe r = (if isMax r then b \<le> a else a \<le> b)
            \<and> (\<forall>s d p. slack r = Fin s \<and> s \<noteq> 0 \<and> d = (if isMax r then a else b) \<and> d \<noteq> 0
                  \<and> binary64 (s / d) = Fin p \<and> p \<noteq> 0
                \<longrightarrow> percentage r = binary64 (p * 100)))"
proof -
  have pl: "\<not> isNaN (parseFloat limitStr)" and pa: "\<not> isNaN (parseFloat actualStr)"
    using assms by simp_all
  obtain r where r: "calculateSlack limitStr actualStr nm = Some r"
      "isMax r = (contains_ignoring_case nm ''leverage'' \<or> contains_ignoring_case nm ''debt'')"
      "slack r = (if isMax r then js_sub limit actual else js_sub actual limit)"
      "percentage r = js_mul (js_div (slack r) (if isMax r then limit else actual)) (Fin 100)"
      "isSafe r = (slack r = PInf \<or> is_zero (slack r) \<or> 0 < fin_val (slack r))"
    using calculateSlack_fields[OF pl pa, of nm] unfolding assms(1,2) by blast
  have "slack r = binary64 (if isMax r then a - b else b - a)
        \<and> isSafe r = (if isMax r then b \<le> a else a \<le> b)
        \<and> (\<forall>s d p. slack r = Fin s \<and> s \<noteq> 0 \<and> d = (if isMax r then a else b) \<and> d \<noteq> 0
              \<and> binary64 (s / d) = Fin p \<and> p \<noteq> 0
            \<longrightarrow> percentage r = binary64 (p * 100))"
    if ab: "limit = Fin a" "actual = Fin b" for a b
  proof -
    have l: "parseFloat limitStr = Fin a" and t: "parseFloat actualStr = Fin b"
      using assms(1,2) ab by simp_all
    have safe: "isSafe r = js_ge (slack r) (Fin 0)"
      using r(5) by (simp add: js_ge_zero_iff)
    have 1: "slack r = binary64 (if isMax r then a - b else b - a)
        \<and> isSafe r = (if isMax r then b \<le> a else a \<le> b)"
      using js_sub_parsed[OF l t] js_sub_parsed[OF t l] r(3) safe
      unfolding l t assms(1,2)[symmetric] by (cases "isMax r") simp_all
    have 2: "percentage r = binary64 (p * 100)"
      if "slack r = Fin s" "s \<noteq> 0" "d = (if isMax r then a else b)" "d \<noteq> 0"
        "binary64 (s / d) = Fin p" "p \<noteq> 0" for s d p
    proof -
      have "percentage r = js_mul (js_div (Fin s) (Fin d)) (Fin 100)"
        using r(4) that(1,3) ab by (cases "isMax r") simp_all
      also have "js_div (Fin s) (Fin d) = Fin p"
        using that(2,4,5) by (simp add: js_div_Fin)
      also have "js_mul (Fin p) (Fin 100) = binary64 (p * 100)"
        using that(6) by (simp add: js_mul_Fin)
      finally show ?thesis .
    qed
    show ?thesis using 1 2 by blast
  qed
  then show ?thesis using r by blast
qed

theorem calculateSlack_formula_witness:
  "parseFloat ''3.5'' = Fin (7 / 2) \<and> parseFloat ''2.1'' = Fin (4728779608739021 / 2251799813685248)
   \<and> parseFloat ''4.0'' = Fin 4 \<and> parseFloat ''2.0'' = Fin 2 \<and> parseFloat ''2.5'' = Fin (5 / 2)
   \<and> parseFloat ''1.5'' = Fin (3 / 2)
   \<and> parseFloat ''9007199254740992'' = Fin 9007199254740992
   \<and> parseFloat ''9007199254740993'' = Fin 9007199254740992
   \<and> calculateSlack ''3.5'' ''2.1'' ''Leverage Ratio'' =
       Some \<lparr>slack = Fin (3152519739159347 / 2251799813685248), percentage = Fin 40,
             isSafe = True, isMax = True\<rparr>
   \<and> calculateSlack ''3.5'' ''4.0'' ''Leverage Ratio'' =
       Some \<lparr>slack = Fin (- (1 / 2)), percentage = Fin (- (2010535547933257 / 140737488355328)),
             isSafe = False, isMax = True\<rparr>
   \<and> calculateSlack ''2.0'' ''2.5'' ''Interest Cover Ratio'' =
       Some \<lparr>slack = Fin (1 / 2), percentage = Fin 20, isSafe = True, isMax = False\<rparr>
   \<and> calculateSlack ''2.0'' ''1.5'' ''Interest Cover Ratio'' =
       Some \<lparr>slack = Fin (- (1 / 2)), percentage = Fin (- (2345624805922133 / 70368744177664)),
             isSafe = False, isMax = False\<rparr>
   \<and> calculateSlack ''3.5'' ''3.5'' ''Net DEBT Cover'' =
       Some \<lparr>slack = Fin 0, percentage = Fin 0, isSafe = True, isMax = True\<rparr>
   \<and> calculateSlack ''9007199254740992'' ''9007199254740993'' ''Leverage'' =
       Some \<lparr>slack = Fin 0, percentage = Fin 0, isSafe = True, isMax = True\<rparr>"
proof -
  have p: "parseFloat ''3.5'' = Fin (7 / 2)"
      "parseFloat ''2.1'' = Fin (4728779608739021 / 2251799813685248)"
      "parseFloat ''4.0'' = Fin 4" "parseFloat ''2.0'' = Fin 2" "parseFloat ''2.5'' = Fin (5 / 2)"
      "parseFloat ''1.5'' = Fin (3 / 2)"
      "parseFloat ''9007199254740992'' = Fin 9007199254740992"
      "parseFloat ''9007199254740993'' = Fin 9007199254740992"
    by code_simp+
  have c1: "calculateSlack ''3.5'' ''2.1'' ''Leverage Ratio'' =
       Some \<lparr>slack = Fin (3152519739159347 / 2251799813685248), percentage = Fin 40,
             isSafe = True, isMax = True\<rparr>"
    by code_simp
  have c2: "calculateSlack ''3.5'' ''4.0'' ''Leverage Ratio'' =
       Some \<lparr>slack = Fin (- (1 / 2)), percentage = Fin (- (2010535547933257 / 140737488355328)),
             isSafe = False, isMax = True\<rparr>"
    by code_simp
  have c3: "calculateSlack ''2.0'' ''2.5'' ''Interest Cover Ratio'' =
       Some \<lparr>slack = Fin (1 / 2), percentage = Fin 20, isSafe = True, isMax = False\<rparr>"
    by code_simp
  have c4: "calculateSlack ''2.0'' ''1.5'' ''Interest Cover Ratio'' =
       Some \<lparr>slack = Fin (- (1 / 2)), percentage = Fin (- (2345624805922133 / 70368744177664)),
             isSafe = False, isMax = False\<rparr>"
    by code_simp
  have c5: "calculateSlack ''3.5'' ''3.5'' ''Net DEBT Cover'' =
       Some \<lparr>slack = Fin 0, percentage = Fin 0, isSafe = True, isMax = True\<rparr>"
    by code_simp
  have c6: "calculateSlack ''9007199254740992'' ''9007199254740993'' ''Leverage'' =
       Some \<lparr>slack = Fin 0, percentage = Fin 0, isSafe = True, isMax = True\<rparr>"
    by code_simp
  have n: "\<not> isNaN (Fin q)" for q by (simp add: isNaN_def)
  note w = calculateSlack_formula[OF p(1) p(3) n n, of "''Leverage Ratio''"]
    calculateSlack_formula[OF p(4) p(6) n n, of "''Interest Cover Ratio''"]
  show ?thesis
    using w by (simp only: p c1 c2 c3 c4 c5 c6 simp_thms)
qed

text \<open>
  C7. When \<open>parseFloat\<close> gives NaN for the limit text or for the actual text (as for
  "abc" or the empty text), \<open>calculateSlack\<close> returns \<open>null\<close>. The result is a value:
  \<open>calculateSlack\<close> has no branch that throws.
\<close>

theorem calculateSlack_parse_failure:
  assumes "isNaN (parseFloat limitStr) \<or> isNaN (parseFloat actualStr)"
  shows "calculateSlack limitStr actualStr nm = None"
  using assms by (auto simp: calculateSlack_def Let_def)

theorem calculateSlack_parse_failure_witness:
  "isNaN (parseFloat ''abc'') \<and> calculateSlack ''abc'' ''2.1'' ''Leverage Ratio'' = None
   \<and> isNaN (parseFloat []) \<and> calculateSlack ''3.5'' [] ''Leverage Ratio'' = None"
proof -
  have 1: "isNaN (parseFloat ''abc'')" and 2: "isNaN (parseFloat [])"
    by (simp_all add: parse_eval isNaN_def)
  show ?thesis
    using calculateSlack_parse_failure[of "''abc''" "''2.1''" "''Leverage Ratio''"]
      calculateSlack_parse_failure[of "[]" "''3.5''" "''Leverage Ratio''"]
      calculateSlack_parse_failure[of "''3.5''" "[]" "''Leverage Ratio''"] 1 2
    by simp
qed

text \<open>
  C8. When both texts parse and the denominator is zero (the limit for a max-type name,
  the actual value for a min-type name), \<open>calculateSlack\<close> still returns a result, and
  its percentage is an infinity or NaN. A text such as "1e-400", too small for
  binary64, parses to zero and is such a denominator.
\<close>

theorem calculateSlack_zero_denominator:
  assumes "\<not> isNaN (parseFloat limitStr)" "\<not> isNaN (parseFloat actualStr)"
    and "((contains_ignoring_case nm ''leverage'' \<or> contains_ignoring_case nm ''debt'')
            \<and> is_zero (parseFloat limitStr))
         \<or> (\<not> (contains_ignoring_case nm ''leverage'' \<or> contains_ignoring_case nm ''debt'')
            \<and> is_zero (parseFloat actualStr))"
  shows "\<exists>r. calculateSlack limitStr actualStr nm = Some r \<and> percentage r \<in> {PInf, NInf, NaN}"
  using assms(3) zero_denominator[of "parseFloat limitStr" "parseFloat actualStr"]
    zero_denominator[of "parseFloat actualStr" "parseFloat limitStr"]
    calculateSlack_parsed[OF assms(1,2), of nm] assms(1,2)
  by (auto simp: includes_toLowerCase)

theorem calculateSlack_zero_denominator_witness:
  "parseFloat ''0'' = Fin 0 \<and> parseFloat ''-0'' = NZero \<and> parseFloat ''1e-400'' = Fin 0
   \<and> calculateSlack ''0'' ''1'' ''Debt to EBITDA'' =
       Some \<lparr>slack = Fin (- 1), percentage = NInf, isSafe = False, isMax = True\<rparr>
   \<and> calculateSlack ''-0'' ''1'' ''Debt to EBITDA'' =
       Some \<lparr>slack = Fin (- 1), percentage = PInf, isSafe = False, isMax = True\<rparr>
   \<and> calculateSlack ''1e-400'' ''1'' ''Debt to EBITDA'' =
       Some \<lparr>slack = Fin (- 1), percentage = NInf, isSafe = False, isMax = True\<rparr>
   \<and> calculateSlack ''0'' ''0'' ''Debt to EBITDA'' =
       Some \<lparr>slack = Fin 0, percentage = NaN, isSafe = True, isMax = True\<rparr>
   \<and> calculateSlack ''2'' ''0'' ''Interest Cover'' =
       Some \<lparr>slack = Fin (- 2), percentage = NInf, isSafe = False, isMax = False\<rparr>"
proof -
  note u = parseFloat_examples(2)
  have p: "parseFloat ''0'' = Fin 0" "parseFloat ''-0'' = NZero" "parseFloat ''1'' = Fin 1"
      "parseFloat ''2'' = Fin 2"
    by code_simp+
  have s: "js_sub (Fin 0) (Fin 1) = Fin (- 1)" "js_sub NZero (Fin 1) = Fin (- 1)"
      "js_sub (Fin 0) (Fin 0) = Fin 0" "js_sub (Fin 0) (Fin 2) = Fin (- 2)"
    by code_simp+
  have n: "contains_ignoring_case ''Debt to EBITDA'' ''debt''"
    "\<not> contains_ignoring_case ''Interest Cover'' ''leverage''"
    "\<not> contains_ignoring_case ''Interest Cover'' ''debt''"
    unfolding includes_toLowerCase[symmetric] by (simp_all add: lower_eval)
  have d: "js_mul (js_div (Fin (- 1)) (Fin 0)) (Fin 100) = NInf"
      "js_mul (js_div (Fin (- 1)) NZero) (Fin 100) = PInf"
      "js_mul (js_div (Fin 0) (Fin 0)) (Fin 100) = NaN"
      "js_mul (js_div (Fin (- 2)) (Fin 0)) (Fin 100) = NInf"
    by (simp_all add: js_mul_def js_div_def isNaN_def signed_inf_def)
  have g: "\<not> js_ge (Fin (- 1)) (Fin 0)" "js_ge (Fin 0) (Fin 0)" "\<not> js_ge (Fin (- 2)) (Fin 0)"
    by (simp_all add: js_ge_def isNaN_def)
  have c: "calculateSlack ''0'' ''1'' ''Debt to EBITDA'' =
       Some \<lparr>slack = Fin (- 1), percentage = NInf, isSafe = False, isMax = True\<rparr>"
    "calculateSlack ''-0'' ''1'' ''Debt to EBITDA'' =
       Some \<lparr>slack = Fin (- 1), percentage = PInf, isSafe = False, isMax = True\<rparr>"
    "calculateSlack ''1e-400'' ''1'' ''Debt to EBITDA'' =
       Some \<lparr>slack = Fin (- 1), percentage = NInf, isSafe = False, isMax = True\<rparr>"
    "calculateSlack ''0'' ''0'' ''Debt to EBITDA'' =
       Some \<lparr>slack = Fin 0, percentage = NaN, isSafe = True, isMax = True\<rparr>"
    "calculateSlack ''2'' ''0'' ''Interest Cover'' =
       Some \<lparr>slack = Fin (- 2), percentage = NInf, isSafe = False, isMax = False\<rparr>"
    using n by (simp_all add: calculateSlack_parsed includes_toLowerCase u p s d g isNaN_def)
  show ?thesis
    using calculateSlack_zero_denominator[of "''1e-400''" "''1''" "''Debt to EBITDA''"]
      calculateSlack_zero_denominator[of "''2''" "''0''" "''Interest Cover''"]
    by (simp only: u p c simp_thms)
qed

text \<open>
  C10. Trailing text after a number text is ignored, as the "x" of "3.5x" or the "EUR"
  of "3.5EUR": \<open>parseFloat\<close> returns the number of the text before it, and
  \<open>calculateSlack\<close> returns a result, not \<open>null\<close>, whose slack, percentage and safety
  are computed from these two numbers, the same result as for the number texts alone.
\<close>

theorem calculateSlack_trailing_text:
  assumes "\<not> isNaN (parseFloat limitStr)" "\<not> isNaN (parseFloat actualStr)"
    and "trailing_text t1" "trailing_text t2"
  shows "parseFloat (limitStr @ t1) = parseFloat limitStr
      \<and> parseFloat (actualStr @ t2) = parseFloat actualStr
      \<and> calculateSlack (limitStr @ t1) (actualStr @ t2) nm = calculateSlack limitStr actualStr nm
      \<and> (\<exists>r. calculateSlack (limitStr @ t1) (actualStr @ t2) nm = Some r
            \<and> isMax r = (contains_ignoring_case nm ''leverage'' \<or> contains_ignoring_case nm ''debt'')
            \<and> slack r = (if isMax r then js_sub (parseFloat limitStr) (parseFloat actualStr)
                         else js_sub (parseFloat actualStr) (parseFloat limitStr))
            \<and> percentage r =
                js_mul (js_div (slack r) (if isMax r then parseFloat limitStr else parseFloat actualStr))
                  (Fin 100)
            \<and> isSafe r = (slack r = PInf \<or> is_zero (slack r) \<or> 0 < fin_val (slack r)))"
proof -
  have l: "parseFloat (limitStr @ t1) = parseFloat limitStr"
    and a: "parseFloat (actualStr @ t2) = parseFloat actualStr"
    using assms by (simp_all add: parseFloat_append)
  have e: "calculateSlack (limitStr @ t1) (actualStr @ t2) nm = calculateSlack limitStr actualStr nm"
    by (simp add: calculateSlack_def l a)
  show ?thesis
    using calculateSlack_fields[OF assms(1,2), of nm] unfolding e l a by simp
qed

theorem calculateSlack_trailing_text_witness:
  "\<not> isNaN (parseFloat ''3.5'') \<and> \<not> isNaN (parseFloat ''2.1'') \<and> \<not> isNaN (parseFloat ''4.0'')
   \<and> \<not> isNaN (parseFloat ''2.0'') \<and> \<not> isNaN (parseFloat ''1.5'')
   \<and> trailing_text ''x'' \<and> trailing_text '' times'' \<and> trailing_text ''EUR''
   \<and> trailing_text ''e+'' \<and> trailing_text ''%'' \<and> trailing_text ''. approx''
   \<and> parseFloat ''3.5x'' = Fin (7 / 2) \<and> parseFloat ''3.5EUR'' = Fin (7 / 2)
   \<and> parseFloat ''2.0e+'' = Fin 2 \<and> parseFloat ''1.5%'' = Fin (3 / 2)
   \<and> calculateSlack ''3.5x'' ''2.1 times'' ''Leverage Ratio'' =
       Some \<lparr>slack = Fin (3152519739159347 / 2251799813685248), percentage = Fin 40,
             isSafe = True, isMax = True\<rparr>
   \<and> calculateSlack ''3.5EUR'' ''4.0. approx'' ''Leverage Ratio'' =
       Some \<lparr>slack = Fin (- (1 / 2)), percentage = Fin (- (2010535547933257 / 140737488355328)),
             isSafe = False, isMax = True\<rparr>
   \<and> calculateSlack ''2.0e+'' ''1.5%'' ''Interest Cover Ratio'' =
       Some \<lparr>slack = Fin (- (1 / 2)), percentage = Fin (- (2345624805922133 / 70368744177664)),
             isSafe = False, isMax = False\<rparr>"
proof -
  have v: "parseFloat ''3.5'' = Fin (7 / 2)"
      "parseFloat ''2.1'' = Fin (4728779608739021 / 2251799813685248)"
      "parseFloat ''4.0'' = Fin 4" "parseFloat ''2.0'' = Fin 2" "parseFloat ''1.5'' = Fin (3 / 2)"
    by code_simp+
  have p: "\<not> isNaN (parseFloat ''3.5'')" "\<not> isNaN (parseFloat ''2.1'')"
      "\<not> isNaN (parseFloat ''4.0'')" "\<not> isNaN (parseFloat ''2.0'')" "\<not> isNaN (parseFloat ''1.5'')"
    unfolding v by (simp_all add: isNaN_def)
  have t: "trailing_text ''x''" "trailing_text '' times''" "trailing_text ''EUR''"
      "trailing_text ''e+''" "trailing_text ''%''" "trailing_text ''. approx''"
    by (simp_all add: trailing_text_def starts_digit_def starts_signed_digit_def
          starts_exponent_def isDigit_def)
  have c: "calculateSlack ''3.5'' ''2.1'' ''Leverage Ratio'' =
       Some \<lparr>slack = Fin (3152519739159347 / 2251799813685248), percentage = Fin 40,
             isSafe = True, isMax = True\<rparr>"
    "calculateSlack ''3.5'' ''4.0'' ''Leverage Ratio'' =
       Some \<lparr>slack = Fin (- (1 / 2)), percentage = Fin (- (2010535547933257 / 140737488355328)),
             isSafe = False, isMax = True\<rparr>"
    "calculateSlack ''2.0'' ''1.5'' ''Interest Cover Ratio'' =
       Some \<lparr>slack = Fin (- (1 / 2)), percentage = Fin (- (2345624805922133 / 70368744177664)),
             isSafe = False, isMax = False\<rparr>"
    by code_simp+
  have w1: "parseFloat ''3.5x'' = parseFloat ''3.5''"
      "calculateSlack ''3.5x'' ''2.1 times'' ''Leverage Ratio'' =
        calculateSlack ''3.5'' ''2.1'' ''Leverage Ratio''"
    using calculateSlack_trailing_text[OF p(1) p(2) t(1) t(2), of "''Leverage Ratio''"] by simp_all
  have w2: "parseFloat ''3.5EUR'' = parseFloat ''3.5''"
      "calculateSlack ''3.5EUR'' ''4.0. approx'' ''Leverage Ratio'' =
        calculateSlack ''3.5'' ''4.0'' ''Leverage Ratio''"
    using calculateSlack_trailing_text[OF p(1) p(3) t(3) t(6), of "''Leverage Ratio''"] by simp_all
  have w3: "parseFloat ''2.0e+'' = parseFloat ''2.0''" "parseFloat ''1.5%'' = parseFloat ''1.5''"
      "calculateSlack ''2.0e+'' ''1.5%'' ''Interest Cover Ratio'' =
        calculateSlack ''2.0'' ''1.5'' ''Interest Cover Ratio''"
    using calculateSlack_trailing_text[OF p(4) p(5) t(4) t(5), of "''Interest Cover Ratio''"]
    by simp_all
  show ?thesis
    by (simp only: p t simp_thms) (simp only: w1 w2 w3 v c simp_thms)
qed

section \<open>The confidence classifier\<close>

text \<open>
  C5 as stated fails on scores above 100: they are not in the lowest band, a score of
  101 is "High Confidence".
\<close>

theorem getScoreMeta_above_100_counterexample:
  "label (getScoreMeta 101) = ''High Confidence''
   \<and> label (getScoreMeta 101) \<noteq> ''Critical / Low Confidence''"
  by (simp add: getScoreMeta_def)

text \<open>
  C5, amended. \<open>getScoreMeta\<close> is defined on every integer and returns one of three
  bands: "High Confidence" from 85 up (scores above 100 included), "Moderate Review"
  from 70 to 84, and "Critical / Low Confidence" for every score below 70, negative
  scores included.
\<close>

theorem getScoreMeta_bands:
  "(85 \<le> s \<longrightarrow> getScoreMeta s =
      \<lparr>label = ''High Confidence'', text = ''text-emerald-700'', bg = ''bg-emerald-50'',
       border = ''border-emerald-100'', accent = ''border-emerald-500''\<rparr>)
   \<and> (70 \<le> s \<and> s < 85 \<longrightarrow> getScoreMeta s =
      \<lparr>label = ''Moderate Review'', text = ''text-amber-700'', bg = ''bg-amber-50'',
       border = ''border-amber-100'', accent = ''border-amber-500''\<rparr>)
   \<and> (s < 70 \<longrightarrow> getScoreMeta s =
      \<lparr>label = ''Critical / Low Confidence'', text = ''text-rose-700'', bg = ''bg-rose-50'',
       border = ''border-rose-100'', accent = ''border-rose-500''\<rparr>)
   \<and> label (getScoreMeta s) \<in> {''High Confidence'', ''Moderate Review'', ''Critical / Low Confidence''}"
  by (simp add: getScoreMeta_def)

theorem getScoreMeta_bands_witness:
  "label (getScoreMeta 85) = ''High Confidence'' \<and> label (getScoreMeta 84) = ''Moderate Review''
   \<and> label (getScoreMeta 70) = ''Moderate Review''
   \<and> label (getScoreMeta 69) = ''Critical / Low Confidence''
   \<and> label (getScoreMeta (- 5)) = ''Critical / Low Confidence''
   \<and> label (getScoreMeta 250) = ''High Confidence''"
  using getScoreMeta_bands[of 85] getScoreMeta_bands[of 84] getScoreMeta_bands[of 70]
    getScoreMeta_bands[of 69] getScoreMeta_bands[of "- 5"] getScoreMeta_bands[of 250]
  by simp

section \<open>The result normalizer\<close>

lemma mapClauses_eq:
  "mapClauses cs = (if \<exists>c\<in>set cs. nullish c then Inl TypeError else Inr (map toClauseAnalysis cs))"
  by (induction cs) (auto simp: mapClause_def)

lemma normalize_eq:
  "analyzeLoanDocument data txt =
     (if nullish data then Inl AnalysisFailed
      else case get_prop data ''clauses'' of
          JArr cs \<Rightarrow>
            if (\<exists>c\<in>set cs. nullish c) \<or> nullish (get_prop data ''riskAssessment'')
            then Inl AnalysisFailed
            else Inr
              \<lparr>overview = get_prop data ''overview'',
               confidenceAnalysis = map toClauseAnalysis cs,
               riskAssessment =
                 \<lparr>overallRating =
                    js_or (get_prop (get_prop data ''riskAssessment'') ''overallRating'') (JStr ''Medium''),
                  risk_summary = get_prop (get_prop data ''riskAssessment'') ''summary''\<rparr>,
               commercialSummary = get_prop data ''commercialSummary'',
               dealReadiness = get_prop data ''dealReadiness'',
               rawText = txt\<rparr>
        | _ \<Rightarrow> Inl AnalysisFailed)"
  by (simp add: analyzeLoanDocument_def buildResult_def mapClauses_eq split: jsval.splits)

lemma normalize_Inr:
  assumes "analyzeLoanDocument data txt = Inr r"
  obtains cs where "get_prop data ''clauses'' = JArr cs"
    and "r = \<lparr>overview = get_prop data ''overview'',
               confidenceAnalysis = map toClauseAnalysis cs,
               riskAssessment =
                 \<lparr>overallRating =
                    js_or (get_prop (get_prop data ''riskAssessment'') ''overallRating'') (JStr ''Medium''),
                  risk_summary = get_prop (get_prop data ''riskAssessment'') ''summary''\<rparr>,
               commercialSummary = get_prop data ''commercialSummary'',
               dealReadiness = get_prop data ''dealReadiness'',
               rawText = txt\<rparr>"
  using assms unfolding normalize_eq by (auto split: if_splits jsval.splits)

lemma normalize_example:
  assumes "\<not> nullish c" "\<not> nullish k"
  shows "analyzeLoanDocument (example_payload c d k) txt =
     Inr \<lparr>overview = example_overview,
          confidenceAnalysis = [toClauseAnalysis c],
          riskAssessment =
            \<lparr>overallRating = js_or (get_prop k ''overallRating'') (JStr ''Medium''),
             risk_summary = get_prop k ''summary''\<rparr>,
          commercialSummary = example_commercial,
          dealReadiness = d,
          rawText = txt\<rparr>"
  using assms by (simp add: normalize_eq example_payload_def)

lemma toClauseAnalysis_example:
  "toClauseAnalysis (example_clause n dev rv) =
     \<lparr>name = JStr ''Financial Covenants'', summary = JStr ''Leverage below 3.5x'',
      confidenceScore = JNum (Fin (of_int n)), reviewRequired = JBool rv,
      reason = JStr ''Clear wording'',
      lmaComparison =
        \<lparr>standardBenchmark = JStr ''Market standard position.'', deviations = JStr dev,
         impact = JStr ''Review required for specific commercial impact.''\<rparr>\<rparr>"
  by (simp add: toClauseAnalysis_def example_clause_def js_or_def)

lemma example_not_nullish:
  "\<not> nullish (example_clause n dev rv)" "\<not> nullish (example_risk s)"
  by (simp_all add: example_clause_def example_risk_def)

text \<open>
  C1 as stated fails: a clause supplied with \<open>confidence_score = 60\<close>,
  \<open>market_deviation = "Standard"\<close> and \<open>review_required = false\<close> keeps
  \<open>reviewRequired = false\<close>.
\<close>

theorem normalize_reviewRequired_counterexample:
  "analyzeLoanDocument
     (example_payload (example_clause 60 ''Standard'' False)
        (example_readiness 60 ''Not Execution Ready'') (example_risk ''High''))
     ''FACILITY AGREEMENT'' =
   Inr \<lparr>overview = example_overview,
        confidenceAnalysis =
          [\<lparr>name = JStr ''Financial Covenants'', summary = JStr ''Leverage below 3.5x'',
            confidenceScore = JNum (Fin 60), reviewRequired = JBool False,
            reason = JStr ''Clear wording'',
            lmaComparison =
              \<lparr>standardBenchmark = JStr ''Market standard position.'',
               deviations = JStr ''Standard'',
               impact = JStr ''Review required for specific commercial impact.''\<rparr>\<rparr>],
        riskAssessment = \<lparr>overallRating = JStr ''High'', risk_summary = JStr ''Moderate exposure''\<rparr>,
        commercialSummary = example_commercial,
        dealReadiness = example_readiness 60 ''Not Execution Ready'',
        rawText = ''FACILITY AGREEMENT''\<rparr>"
  by (simp add: normalize_example example_not_nullish toClauseAnalysis_example)
     (simp add: example_risk_def js_or_def)

text \<open>
  C1, amended. The normalizer copies the supplied flag: clause by clause, in order,
  \<open>reviewRequired\<close> of the result is the \<open>review_required\<close> value of the payload,
  whatever the confidence score and the market deviation are.
\<close>

theorem normalize_reviewRequired:
  assumes "analyzeLoanDocument data txt = Inr r" "get_prop data ''clauses'' = JArr cs"
  shows "map reviewRequired (confidenceAnalysis r) = map (\<lambda>c. get_prop c ''review_required'') cs"
  using assms by (auto elim!: normalize_Inr simp: toClauseAnalysis_def)

theorem normalize_reviewRequired_witness:
  "analyzeLoanDocument
     (example_payload (example_clause 95 ''Aggressive'' True)
        (example_readiness 72 ''Ready with Review'') (example_risk ''Medium''))
     ''FACILITY AGREEMENT'' =
   Inr \<lparr>overview = example_overview,
        confidenceAnalysis =
          [\<lparr>name = JStr ''Financial Covenants'', summary = JStr ''Leverage below 3.5x'',
            confidenceScore = JNum (Fin 95), reviewRequired = JBool True,
            reason = JStr ''Clear wording'',
            lmaComparison =
              \<lparr>standardBenchmark = JStr ''Market standard position.'',
               deviations = JStr ''Aggressive'',
               impact = JStr ''Review required for specific commercial impact.''\<rparr>\<rparr>],
        riskAssessment = \<lparr>overallRating = JStr ''Medium'', risk_summary = JStr ''Moderate exposure''\<rparr>,
        commercialSummary = example_commercial,
        dealReadiness = example_readiness 72 ''Ready with Review'',
        rawText = ''FACILITY AGREEMENT''\<rparr>
   \<and> get_prop
        (example_payload (example_clause 95 ''Aggressive'' True)
           (example_readiness 72 ''Ready with Review'') (example_risk ''Medium''))
        ''clauses'' = JArr [example_clause 95 ''Aggressive'' True]
   \<and> get_prop (example_clause 95 ''Aggressive'' True) ''review_required'' = JBool True"
proof -
  let ?p = "example_payload (example_clause 95 ''Aggressive'' True)
        (example_readiness 72 ''Ready with Review'') (example_risk ''Medium'')"
  let ?r = "\<lparr>overview = example_overview,
        confidenceAnalysis = [toClauseAnalysis (example_clause 95 ''Aggressive'' True)],
        riskAssessment = \<lparr>overallRating = JStr ''Medium'', risk_summary = JStr ''Moderate exposure''\<rparr>,
        commercialSummary = example_commercial,
        dealReadiness = example_readiness 72 ''Ready with Review'',
        rawText = ''FACILITY AGREEMENT''\<rparr>"
  have n: "analyzeLoanDocument ?p ''FACILITY AGREEMENT'' = Inr ?r"
    by (simp add: normalize_example example_not_nullish) (simp add: example_risk_def js_or_def)
  have c: "get_prop ?p ''clauses'' = JArr [example_clause 95 ''Aggressive'' True]"
    by (simp add: example_payload_def)
  show ?thesis
    using normalize_reviewRequired[OF n c] n c
    by (simp add: toClauseAnalysis_example)
qed

text \<open>
  C2 as stated fails: two payloads with the same score 90 keep the two different
  statuses they were supplied with, one of them "Not Execution Ready", while the pill
  colour, computed from the score, is the one of the top tier.
\<close>

theorem normalize_status_counterexample:
  "analyzeLoanDocument
     (example_payload (example_clause 90 ''Standard'' False)
        (example_readiness 90 ''Not Execution Ready'') (example_risk ''Low''))
     ''FACILITY AGREEMENT'' =
   Inr \<lparr>overview = example_overview,
        confidenceAnalysis = [toClauseAnalysis (example_clause 90 ''Standard'' False)],
        riskAssessment = \<lparr>overallRating = JStr ''Low'', risk_summary = JStr ''Moderate exposure''\<rparr>,
        commercialSummary = example_commercial,
        dealReadiness = example_readiness 90 ''Not Execution Ready'',
        rawText = ''FACILITY AGREEMENT''\<rparr>
   \<and> analyzeLoanDocument
     (example_payload (example_clause 90 ''Standard'' False)
        (example_readiness 90 ''Execution Ready'') (example_risk ''Low''))
     ''FACILITY AGREEMENT'' =
   Inr \<lparr>overview = example_overview,
        confidenceAnalysis = [toClauseAnalysis (example_clause 90 ''Standard'' False)],
        riskAssessment = \<lparr>overallRating = JStr ''Low'', risk_summary = JStr ''Moderate exposure''\<rparr>,
        commercialSummary = example_commercial,
        dealReadiness = example_readiness 90 ''Execution Ready'',
        rawText = ''FACILITY AGREEMENT''\<rparr>
   \<and> get_prop (example_readiness 90 ''Not Execution Ready'') ''score'' = JNum (Fin 90)
   \<and> get_prop (example_readiness 90 ''Not Execution Ready'') ''status'' = JStr ''Not Execution Ready''
   \<and> get_prop (example_readiness 90 ''Execution Ready'') ''score'' = JNum (Fin 90)
   \<and> get_prop (example_readiness 90 ''Execution Ready'') ''status'' = JStr ''Execution Ready''
   \<and> getReadinessColorPill 90 = ''text-emerald-600 bg-white border-emerald-300 shadow-sm''"
  by (simp add: normalize_example example_not_nullish getReadinessColorPill_def)
     (simp add: example_risk_def example_readiness_def js_or_def)

text \<open>
  C2, amended. The normalizer copies \<open>dealReadiness\<close> from the payload unchanged, so
  the status of a result is the status that was supplied, and the score the score that
  was supplied; the status is not recomputed from the score.
\<close>

theorem normalize_dealReadiness:
  assumes "analyzeLoanDocument data txt = Inr r"
  shows "dealReadiness r = get_prop data ''dealReadiness''"
  using assms by (auto elim!: normalize_Inr)

theorem normalize_dealReadiness_witness:
  "analyzeLoanDocument
     (example_payload (example_clause 88 ''Standard'' False)
        (example_readiness 72 ''Ready with Review'') (example_risk ''Low''))
     ''FACILITY AGREEMENT'' =
   Inr \<lparr>overview = example_overview,
        confidenceAnalysis = [toClauseAnalysis (example_clause 88 ''Standard'' False)],
        riskAssessment = \<lparr>overallRating = JStr ''Low'', risk_summary = JStr ''Moderate exposure''\<rparr>,
        commercialSummary = example_commercial,
        dealReadiness = example_readiness 72 ''Ready with Review'',
        rawText = ''FACILITY AGREEMENT''\<rparr>
   \<and> get_prop
        (example_payload (example_clause 88 ''Standard'' False)
           (example_readiness 72 ''Ready with Review'') (example_risk ''Low''))
        ''dealReadiness'' = example_readiness 72 ''Ready with Review''"
proof -
  let ?p = "example_payload (example_clause 88 ''Standard'' False)
        (example_readiness 72 ''Ready with Review'') (example_risk ''Low'')"
  let ?r = "\<lparr>overview = example_overview,
        confidenceAnalysis = [toClauseAnalysis (example_clause 88 ''Standard'' False)],
        riskAssessment = \<lparr>overallRating = JStr ''Low'', risk_summary = JStr ''Moderate exposure''\<rparr>,
        commercialSummary = example_commercial,
        dealReadiness = example_readiness 72 ''Ready with Review'',
        rawText = ''FACILITY AGREEMENT''\<rparr>"
  have n: "analyzeLoanDocument ?p ''FACILITY AGREEMENT'' = Inr ?r"
    by (simp add: normalize_example example_not_nullish) (simp add: example_risk_def js_or_def)
  show ?thesis
    using normalize_dealReadiness[OF n] n by simp
qed

text \<open>
  C3 as stated fails: a payload without \<open>dealReadiness\<close> is normalized to a result, whose
  \<open>dealReadiness\<close> is \<open>undefined\<close>.
\<close>

theorem normalize_missing_section_counterexample:
  "analyzeLoanDocument payload_without_dealReadiness ''FACILITY AGREEMENT'' =
   Inr \<lparr>overview = example_overview,
        confidenceAnalysis = [],
        riskAssessment = \<lparr>overallRating = JStr ''Low'', risk_summary = JStr ''Moderate exposure''\<rparr>,
        commercialSummary = example_commercial,
        dealReadiness = JUndefined,
        rawText = ''FACILITY AGREEMENT''\<rparr>"
  by (simp add: normalize_eq payload_without_dealReadiness_def example_risk_def js_or_def)

text \<open>
  C3, amended. \<open>analyzeLoanDocument\<close> fails, with the one analysis error and without a result,
  exactly when the payload is \<open>null\<close>, its \<open>clauses\<close> is not an array, an entry of
  \<open>clauses\<close> is \<open>null\<close>, or its \<open>riskAssessment\<close> is absent or \<open>null\<close>. The sections
  \<open>overview\<close>, \<open>dealReadiness\<close> and \<open>commercialSummary\<close> play no part in it.
\<close>

theorem normalize_fails_iff:
  "analyzeLoanDocument data txt = Inl AnalysisFailed \<longleftrightarrow>
     nullish data
     \<or> (\<forall>cs. get_prop data ''clauses'' \<noteq> JArr cs)
     \<or> (\<exists>cs. get_prop data ''clauses'' = JArr cs \<and> (\<exists>c\<in>set cs. nullish c))
     \<or> nullish (get_prop data ''riskAssessment'')"
  unfolding normalize_eq by (auto split: jsval.splits)

theorem normalize_fails_iff_witness:
  "analyzeLoanDocument (JObj []) ''FACILITY AGREEMENT'' = Inl AnalysisFailed
   \<and> analyzeLoanDocument (JObj [(''clauses'', JArr [JNull]), (''riskAssessment'', example_risk ''Low'')])
       ''FACILITY AGREEMENT'' = Inl AnalysisFailed
   \<and> analyzeLoanDocument (JObj [(''clauses'', JArr [])]) ''FACILITY AGREEMENT'' = Inl AnalysisFailed
   \<and> analyzeLoanDocument payload_without_dealReadiness ''FACILITY AGREEMENT'' \<noteq> Inl AnalysisFailed"
  using normalize_fails_iff[of "JObj []" "''FACILITY AGREEMENT''"]
    normalize_fails_iff[of "JObj [(''clauses'', JArr [JNull]), (''riskAssessment'', example_risk ''Low'')]"
      "''FACILITY AGREEMENT''"]
    normalize_fails_iff[of "JObj [(''clauses'', JArr [])]" "''FACILITY AGREEMENT''"]
    normalize_fails_iff[of payload_without_dealReadiness "''FACILITY AGREEMENT''"]
  by (simp add: payload_without_dealReadiness_def example_risk_def)

text \<open>
  C6 as stated fails: the rating "Critical", a string outside the three ratings, is
  kept as it is.
\<close>

theorem normalize_overallRating_counterexample:
  "analyzeLoanDocument
     (example_payload (example_clause 90 ''Standard'' False)
        (example_readiness 90 ''Execution Ready'') (example_risk ''Critical''))
     ''FACILITY AGREEMENT'' =
   Inr \<lparr>overview = example_overview,
        confidenceAnalysis = [toClauseAnalysis (example_clause 90 ''Standard'' False)],
        riskAssessment = \<lparr>overallRating = JStr ''Critical'', risk_summary = JStr ''Moderate exposure''\<rparr>,
        commercialSummary = example_commercial,
        dealReadiness = example_readiness 90 ''Execution Ready'',
        rawText = ''FACILITY AGREEMENT''\<rparr>"
  by (simp add: normalize_example example_not_nullish) (simp add: example_risk_def js_or_def)

text \<open>
  C6, amended. A rating that is missing or otherwise falsy (absent, \<open>null\<close>, the empty
  string, \<open>false\<close>, a zero or NaN) is replaced by "Medium"; every other value is kept as
  supplied. In particular every non-empty string is kept, whether it is one of the
  three ratings or not.
\<close>

theorem normalize_overallRating:
  assumes "analyzeLoanDocument data txt = Inr r"
    and "v = get_prop (get_prop data ''riskAssessment'') ''overallRating''"
  shows "overallRating (riskAssessment r) =
           (if v = JUndefined \<or> v = JNull \<or> v = JStr [] \<or> v = JBool False
               \<or> (\<exists>n. v = JNum n \<and> (is_zero n \<or> n = NaN))
            then JStr ''Medium'' else v)"
proof -
  have "truthy v = (\<not> (v = JUndefined \<or> v = JNull \<or> v = JStr [] \<or> v = JBool False
               \<or> (\<exists>n. v = JNum n \<and> (is_zero n \<or> n = NaN))))"
    by (cases v) (auto simp: isNaN_def)
  then show ?thesis
    using assms by (auto elim!: normalize_Inr simp: js_or_def)
qed

theorem normalize_overallRating_witness:
  "analyzeLoanDocument
     (example_payload (example_clause 90 ''Standard'' False)
        (example_readiness 90 ''Execution Ready'') (JObj [(''summary'', JStr ''No rating given'')]))
     ''FACILITY AGREEMENT'' =
   Inr \<lparr>overview = example_overview,
        confidenceAnalysis = [toClauseAnalysis (example_clause 90 ''Standard'' False)],
        riskAssessment = \<lparr>overallRating = JStr ''Medium'', risk_summary = JStr ''No rating given''\<rparr>,
        commercialSummary = example_commercial,
        dealReadiness = example_readiness 90 ''Execution Ready'',
        rawText = ''FACILITY AGREEMENT''\<rparr>
   \<and> get_prop
        (get_prop
           (example_payload (example_clause 90 ''Standard'' False)
              (example_readiness 90 ''Execution Ready'') (JObj [(''summary'', JStr ''No rating given'')]))
           ''riskAssessment'')
        ''overallRating'' = JUndefined"
proof -
  let ?p = "example_payload (example_clause 90 ''Standard'' False)
        (example_readiness 90 ''Execution Ready'') (JObj [(''summary'', JStr ''No rating given'')])"
  obtain r where n: "analyzeLoanDocument ?p ''FACILITY AGREEMENT'' = Inr r"
    and r: "r = \<lparr>overview = example_overview,
        confidenceAnalysis = [toClauseAnalysis (example_clause 90 ''Standard'' False)],
        riskAssessment =
          \<lparr>overallRating = js_or (get_prop (JObj [(''summary'', JStr ''No rating given'')]) ''overallRating'')
                             (JStr ''Medium''),
           risk_summary = get_prop (JObj [(''summary'', JStr ''No rating given'')]) ''summary''\<rparr>,
        commercialSummary = example_commercial,
        dealReadiness = example_readiness 90 ''Execution Ready'',
        rawText = ''FACILITY AGREEMENT''\<rparr>"
    by (simp add: normalize_example example_not_nullish)
  have v: "get_prop (get_prop ?p ''riskAssessment'') ''overallRating'' = JUndefined"
    by (simp add: example_payload_def)
  have "overallRating (riskAssessment r) = JStr ''Medium''"
    using normalize_overallRating[OF n refl] v by simp
  then show ?thesis
    using n r v by simp
qed

text \<open>The default also replaces \<open>false\<close> and \<open>0\<close>; a rating of the enum is kept.\<close>

lemma normalize_overallRating_examples:
  "map_sum id (\<lambda>r. overallRating (riskAssessment r))
     (analyzeLoanDocument (example_payload (example_clause 90 ''Standard'' False)
        (example_readiness 90 ''Execution Ready'') (JObj [(''overallRating'', JBool False)])) txt)
   = Inr (JStr ''Medium'')"
  "map_sum id (\<lambda>r. overallRating (riskAssessment r))
     (analyzeLoanDocument (example_payload (example_clause 90 ''Standard'' False)
        (example_readiness 90 ''Execution Ready'') (JObj [(''overallRating'', JNum (Fin 0))])) txt)
   = Inr (JStr ''Medium'')"
  "map_sum id (\<lambda>r. overallRating (riskAssessment r))
     (analyzeLoanDocument (example_payload (example_clause 90 ''Standard'' False)
        (example_readiness 90 ''Execution Ready'') (example_risk ''High'')) txt)
   = Inr (JStr ''High'')"
  by (simp_all add: normalize_example example_not_nullish js_or_def example_risk_def)

text \<open>
  C9. Whenever \<open>analyzeLoanDocument\<close> returns a result, its \<open>rawText\<close> is the document text it was
  given, character for character.
\<close>

theorem normalize_rawText:
  assumes "analyzeLoanDocument data txt = Inr r"
  shows "rawText r = txt"
  using assms by (auto elim!: normalize_Inr)

theorem normalize_rawText_witness:
  "analyzeLoanDocument
     (example_payload (example_clause 81 ''Slightly Aggressive'' False)
        (example_readiness 81 ''Ready with Review'') (example_risk ''Medium''))
     ''THIS AGREEMENT is dated 1 March 2024'' =
   Inr \<lparr>overview = example_overview,
        confidenceAnalysis = [toClauseAnalysis (example_clause 81 ''Slightly Aggressive'' False)],
        riskAssessment = \<lparr>overallRating = JStr ''Medium'', risk_summary = JStr ''Moderate exposure''\<rparr>,
        commercialSummary = example_commercial,
        dealReadiness = example_readiness 81 ''Ready with Review'',
        rawText = ''THIS AGREEMENT is dated 1 March 2024''\<rparr>"
proof -
  let ?p = "example_payload (example_clause 81 ''Slightly Aggressive'' False)
        (example_readiness 81 ''Ready with Review'') (example_risk ''Medium'')"
  obtain r where n: "analyzeLoanDocument ?p ''THIS AGREEMENT is dated 1 March 2024'' = Inr r"
    and r: "r = \<lparr>overview = example_overview,
        confidenceAnalysis = [toClauseAnalysis (example_clause 81 ''Slightly Aggressive'' False)],
        riskAssessment = \<lparr>overallRating = JStr ''Medium'', risk_summary = JStr ''Moderate exposure''\<rparr>,
        commercialSummary = example_commercial,
        dealReadiness = example_readiness 81 ''Ready with Review'',
        rawText = rawText r\<rparr>"
    by (simp add: normalize_example example_not_nullish) (simp add: example_risk_def js_or_def)
  have "rawText r = ''THIS AGREEMENT is dated 1 March 2024''"
    using normalize_rawText[OF n] .
  then show ?thesis
    using n r by simp
qed

end
